theory Spec2Isabelle
  imports Complex_Main "HOL-Library.AList"
begin

section \<open>JavaScript values and objects\<close>

text \<open>
  A configuration is a plain JavaScript object that the user's config file exports. It is
  not validated when it is loaded, so the model keeps the dynamic types: a property may
  hold any value. Numbers are the finite ones, as rationals (NaN and the infinities are
  left out); a function is opaque and only its identity is kept. An object is the list of
  its own properties in insertion order.
\<close>

datatype jsval =
    Undefined
  | Null
  | Bool bool
  | Num rat
  | Str string
  | Arr "jsval list"
  | Obj "(string \<times> jsval) list"
  | Fun nat

type_synonym obj = "(string \<times> jsval) list"

text \<open>\<^verbatim>\<open>o[k]\<close>: the value of a property, \<^verbatim>\<open>undefined\<close> when the object has none.\<close>

definition js_get :: "obj \<Rightarrow> string \<Rightarrow> jsval" where
  "js_get fs k = (case map_of fs k of None \<Rightarrow> Undefined | Some v \<Rightarrow> v)"

text \<open>\<^verbatim>\<open>k in o\<close>: the object has the property, whatever its value.\<close>

definition js_in :: "string \<Rightarrow> obj \<Rightarrow> bool" where
  "js_in k fs = (map_of fs k \<noteq> None)"

text \<open>The truthiness that \<^verbatim>\<open>!x\<close>, \<^verbatim>\<open>&&\<close> and \<^verbatim>\<open>if (x)\<close> test.\<close>

fun truthy :: "jsval \<Rightarrow> bool" where
  "truthy Undefined = False"
| "truthy Null = False"
| "truthy (Bool b) = b"
| "truthy (Num n) = (n \<noteq> 0)"
| "truthy (Str s) = (s \<noteq> [])"
| "truthy (Arr xs) = True"
| "truthy (Obj fs) = True"
| "truthy (Fun f) = True"

text \<open>\<^verbatim>\<open>s.includes(chunk)\<close> on strings: \<open>chunk\<close> occurs in \<open>s\<close> as a contiguous run.\<close>

fun js_includes :: "string \<Rightarrow> string \<Rightarrow> bool" where
  "js_includes [] chunk = (chunk = [])"
| "js_includes (x # xs) chunk = (take (length chunk) (x # xs) = chunk \<or> js_includes xs chunk)"

text \<open>\<^verbatim>\<open>parts.join(sep)\<close> on an array of strings.\<close>

fun join :: "string \<Rightarrow> string list \<Rightarrow> string" where
  "join sep [] = []"
| "join sep [x] = x"
| "join sep (x # y # ys) = x @ sep @ join sep (y # ys)"

text \<open>The decimal digits of a number, as \<^verbatim>\<open>join\<close> prints an array index of a path.\<close>

fun show_nat :: "nat \<Rightarrow> string" where
  "show_nat n =
     (if n < 10 then [''0123456789'' ! n]
      else show_nat (n div 10) @ [''0123456789'' ! (n mod 10)])"

declare show_nat.simps [simp del]

section \<open>The schema language of zod\<close>

text \<open>
  \<^verbatim>\<open>config.ts\<close> declares its schemas with zod (version 3: \<^verbatim>\<open>z.function().args(...)\<close> and
  the one-argument \<^verbatim>\<open>z.record\<close> are that version's API). The combinators the file uses are
  the constructors below. \<^verbatim>\<open>z.function()\<close> checks at parse time only that the value is a
  function (its \<^verbatim>\<open>args\<close> and \<^verbatim>\<open>returns\<close> schemas are applied when the function is called),
  so \<open>ZFunction\<close> carries neither, and \<^verbatim>\<open>StoryLikeSchema\<close>, used only there, is not needed.
\<close>

datatype zschema =
    ZString
  | ZNumber
  | ZBoolean
  | ZEnum "string list"
  | ZArray zschema
  | ZObject "(string \<times> zschema) list"
  | ZOptional zschema
  | ZDefault zschema jsval
  | ZFunction

datatype pathseg = Key string | Idx nat

datatype zissue = ZodIssue (path: "pathseg list") (message: string)

text \<open>The type names zod reports (\<^verbatim>\<open>getParsedType\<close>).\<close>

fun parsedType :: "jsval \<Rightarrow> string" where
  "parsedType Undefined = ''undefined''"
| "parsedType Null = ''null''"
| "parsedType (Bool b) = ''boolean''"
| "parsedType (Num n) = ''number''"
| "parsedType (Str s) = ''string''"
| "parsedType (Arr xs) = ''array''"
| "parsedType (Obj fs) = ''object''"
| "parsedType (Fun f) = ''function''"

text \<open>
  The messages of zod's default error map for the two issue codes these schemas can
  raise, \<^verbatim>\<open>invalid_type\<close> and \<^verbatim>\<open>invalid_enum_value\<close>.
\<close>

definition invalid_type :: "pathseg list \<Rightarrow> string \<Rightarrow> jsval \<Rightarrow> zissue" where
  "invalid_type p expected v =
     ZodIssue p (if v = Undefined then ''Required''
                 else ''Expected '' @ expected @ '', received '' @ parsedType v)"

definition quoted :: "string \<Rightarrow> string" where
  "quoted s = [CHR 0x27] @ s @ [CHR 0x27]"

definition joinValues :: "string list \<Rightarrow> string" where
  "joinValues opts = join '' | '' (map quoted opts)"

definition invalid_enum_value :: "pathseg list \<Rightarrow> string list \<Rightarrow> string \<Rightarrow> zissue" where
  "invalid_enum_value p opts received =
     ZodIssue p (''Invalid enum value. Expected '' @ joinValues opts @
                 '', received '' @ quoted received)"

text \<open>
  An array schema parses every element under the path extended with its index and
  collects the issues of all of them.
\<close>

fun parse_elems ::
  "(pathseg list \<Rightarrow> jsval \<Rightarrow> zissue list \<times> jsval) \<Rightarrow> pathseg list \<Rightarrow> nat \<Rightarrow> jsval list
     \<Rightarrow> zissue list \<times> jsval list" where
  "parse_elems pf p i [] = ([], [])"
| "parse_elems pf p i (x # xs) =
     (let (is, d) = pf (p @ [Idx i]) x;
          (is', ds) = parse_elems pf p (Suc i) xs
      in (is @ is', d # ds))"

text \<open>
  An object schema goes through the keys of its shape, in order, parses the input's
  property of that name (\<^verbatim>\<open>undefined\<close> when absent) and collects the issues of all keys.
  The output has the key when the input had it or when the parsed value is defined;
  properties outside the shape are stripped (zod's default for unknown keys).
\<close>

fun parse_fields ::
  "(string \<times> (pathseg list \<Rightarrow> jsval \<Rightarrow> zissue list \<times> jsval)) list \<Rightarrow> pathseg list \<Rightarrow> obj
     \<Rightarrow> zissue list \<times> obj" where
  "parse_fields [] p fs = ([], [])"
| "parse_fields ((k, pf) # rest) p fs =
     (let (is, d) = pf (p @ [Key k]) (js_get fs k);
          (is', out) = parse_fields rest p fs
      in (is @ is', if d \<noteq> Undefined \<or> js_in k fs then (k, d) # out else out))"

primrec parse :: "zschema \<Rightarrow> pathseg list \<Rightarrow> jsval \<Rightarrow> zissue list \<times> jsval" where
  "parse ZString = (\<lambda>p v. case v of Str s \<Rightarrow> ([], v) | _ \<Rightarrow> ([invalid_type p ''string'' v], v))"
| "parse ZNumber = (\<lambda>p v. case v of Num n \<Rightarrow> ([], v) | _ \<Rightarrow> ([invalid_type p ''number'' v], v))"
| "parse ZBoolean = (\<lambda>p v. case v of Bool b \<Rightarrow> ([], v) | _ \<Rightarrow> ([invalid_type p ''boolean'' v], v))"
| "parse (ZEnum opts) = (\<lambda>p v. case v of
       Str s \<Rightarrow> if s \<in> set opts then ([], v) else ([invalid_enum_value p opts s], v)
     | _ \<Rightarrow> ([invalid_type p (joinValues opts) v], v))"
| "parse (ZArray s) = (\<lambda>p v. case v of
       Arr xs \<Rightarrow> (let (is, ds) = parse_elems (parse s) p 0 xs in (is, Arr ds))
     | _ \<Rightarrow> ([invalid_type p ''array'' v], v))"
| "parse (ZObject shape) = (\<lambda>p v. case v of
       Obj fs \<Rightarrow> (let (is, out) = parse_fields (map (map_prod id parse) shape) p fs
                 in (is, Obj out))
     | _ \<Rightarrow> ([invalid_type p ''object'' v], v))"
| "parse (ZOptional s) = (\<lambda>p v. if v = Undefined then ([], Undefined) else parse s p v)"
| "parse (ZDefault s d) = (\<lambda>p v. parse s p (if v = Undefined then d else v))"
| "parse ZFunction = (\<lambda>p v. case v of Fun f \<Rightarrow> ([], v) | _ \<Rightarrow> ([invalid_type p ''function'' v], v))"

text \<open>\<^verbatim>\<open>schema.safeParse(v)\<close>: the parsed data, or the error with its issues.\<close>

datatype safe_parse_result = SafeParseSuccess jsval | SafeParseError "zissue list"

definition safeParse :: "zschema \<Rightarrow> jsval \<Rightarrow> safe_parse_result" where
  "safeParse s v = (case parse s [] v of ([], d) \<Rightarrow> SafeParseSuccess d
                                       | (i # is, d) \<Rightarrow> SafeParseError (i # is))"

text \<open>The field names of an object schema, \<^verbatim>\<open>Object.keys(schema.shape)\<close>.\<close>

fun schema_keys :: "zschema \<Rightarrow> string list" where
  "schema_keys (ZObject shape) = map fst shape"
| "schema_keys s = []"

text \<open>
  \<^verbatim>\<open>base.extend(augmentation)\<close> spreads the augmentation over the base shape: a key the base
  has is replaced in place, a new key is appended.
\<close>

fun z_extend :: "zschema \<Rightarrow> (string \<times> zschema) list \<Rightarrow> zschema" where
  "z_extend (ZObject shape) aug = ZObject (fold (\<lambda>(k, s). AList.update k s) aug shape)"
| "z_extend s aug = s"

section \<open>The schemas of config.ts\<close>

definition MaskSchema :: zschema where
  "MaskSchema = ZObject [(''selector'', ZString)]"

definition PageScreenshotParameterSchema :: zschema where
  "PageScreenshotParameterSchema = ZObject
     [(''path'', ZString),
      (''name'', ZString),
      (''waitBeforeScreenshot'', ZDefault ZNumber (Num 1000)),
      (''threshold'', ZDefault ZNumber (Num 0)),
      (''breakpoints'', ZArray ZNumber),
      (''viewport'', ZOptional (ZObject
         [(''width'', ZOptional ZNumber), (''height'', ZOptional ZNumber)])),
      (''mask'', ZOptional (ZArray MaskSchema))]"

definition StorybookShotsSchema :: zschema where
  "StorybookShotsSchema = ZObject
     [(''storybookUrl'', ZString),
      (''mask'', ZOptional (ZArray MaskSchema)),
      (''breakpoints'', ZOptional (ZArray ZNumber))]"

definition LadleShotsSchema :: zschema where
  "LadleShotsSchema = ZObject
     [(''ladleUrl'', ZString),
      (''mask'', ZOptional (ZArray MaskSchema)),
      (''breakpoints'', ZOptional (ZDefault (ZArray ZNumber) (Arr [])))]"

definition HistoireShotsSchema :: zschema where
  "HistoireShotsSchema = ZObject
     [(''histoireUrl'', ZString),
      (''mask'', ZOptional (ZArray MaskSchema)),
      (''breakpoints'', ZOptional (ZArray ZNumber))]"

definition PageShotsSchema :: zschema where
  "PageShotsSchema = ZObject
     [(''pages'', ZArray PageScreenshotParameterSchema),
      (''pagesJsonUrl'', ZOptional ZString),
      (''baseUrl'', ZString),
      (''mask'', ZOptional (ZArray MaskSchema)),
      (''breakpoints'', ZOptional (ZArray ZNumber))]"

definition CustomShotsSchema :: zschema where
  "CustomShotsSchema = ZObject [(''currentShotsPath'', ZString)]"

definition TimeoutsSchema :: zschema where
  "TimeoutsSchema = ZObject
     [(''fetchStories'', ZDefault ZNumber (Num 30000)),
      (''loadState'', ZDefault ZNumber (Num 30000)),
      (''networkRequests'', ZDefault ZNumber (Num 30000))]"

definition BaseConfigSchema :: zschema where
  "BaseConfigSchema = ZObject
     [(''browser'', ZDefault (ZEnum [''chromium'', ''firefox'', ''webkit'']) (Str ''chromium'')),
      (''storybookShots'', ZOptional StorybookShotsSchema),
      (''ladleShots'', ZOptional LadleShotsSchema),
      (''histoireShots'', ZOptional HistoireShotsSchema),
      (''pageShots'', ZOptional PageShotsSchema),
      (''customShots'', ZOptional CustomShotsSchema),
      (''imagePathCurrent'', ZDefault ZString (Str ''.lostpixel/current/'')),
      (''breakpoints'', ZDefault (ZArray ZNumber) (Arr [])),
      (''shotConcurrency'', ZDefault ZNumber (Num 5)),
      (''timeouts'', ZDefault TimeoutsSchema (Obj
         [(''fetchStories'', Num 30000),
          (''loadState'', Num 30000),
          (''networkRequests'', Num 30000)])),
      (''waitBeforeScreenshot'', ZDefault ZNumber (Num 1000)),
      (''waitForFirstRequest'', ZDefault ZNumber (Num 1000)),
      (''waitForLastRequest'', ZDefault ZNumber (Num 1000)),
      (''threshold'', ZDefault ZNumber (Num 0)),
      (''flakynessRetries'', ZDefault ZNumber (Num 0)),
      (''waitBetweenFlakynessRetries'', ZDefault ZNumber (Num 2000)),
      (''filterShot'', ZOptional ZFunction),
      (''shotNameGenerator'', ZOptional ZFunction),
      (''configureBrowser'', ZOptional ZFunction),
      (''beforeScreenshot'', ZOptional ZFunction)]"

text \<open>
  The platform schema takes five defaults from the environment of the process, read when
  the module is loaded. A variable that is not set leaves the default \<^verbatim>\<open>undefined\<close>, which
  the string schema then refuses ("it will be caught during config validation").
\<close>

record env =
  CI_BUILD_ID :: "string option"
  CI_BUILD_NUMBER :: "string option"
  REPOSITORY :: "string option"
  COMMIT_REF_NAME :: "string option"
  COMMIT_HASH :: "string option"

fun env_value :: "string option \<Rightarrow> jsval" where
  "env_value None = Undefined"
| "env_value (Some s) = Str s"

definition PlatformModeConfigSchema :: "env \<Rightarrow> zschema" where
  "PlatformModeConfigSchema e = z_extend BaseConfigSchema
     [(''lostPixelPlatform'', ZDefault ZString (Str ''https://api.lost-pixel.com'')),
      (''apiKey'', ZString),
      (''lostPixelProjectId'', ZString),
      (''ciBuildId'', ZDefault ZString (env_value (CI_BUILD_ID e))),
      (''ciBuildNumber'', ZDefault ZString (env_value (CI_BUILD_NUMBER e))),
      (''repository'', ZDefault ZString (env_value (REPOSITORY e))),
      (''commitRefName'', ZDefault ZString (env_value (COMMIT_REF_NAME e))),
      (''commitHash'', ZDefault ZString (env_value (COMMIT_HASH e))),
      (''eventFilePath'', ZOptional ZString),
      (''setPendingStatusCheck'', ZDefault ZBoolean (Bool False))]"

definition GenerateOnlyModeConfigSchema :: zschema where
  "GenerateOnlyModeConfigSchema = z_extend BaseConfigSchema
     [(''generateOnly'', ZOptional ZBoolean),
      (''failOnDifference'', ZOptional ZBoolean),
      (''imagePathBaseline'', ZDefault ZString (Str ''.lostpixel/baseline/'')),
      (''imagePathDifference'', ZDefault ZString (Str ''.lostpixel/difference/'')),
      (''compareConcurrency'', ZDefault ZNumber (Num 10)),
      (''compareEngine'', ZDefault (ZEnum [''pixelmatch'', ''odiff'']) (Str ''pixelmatch''))]"

definition MEDIA_UPLOAD_CONCURRENCY :: nat where
  "MEDIA_UPLOAD_CONCURRENCY = 10"

text \<open>
  Modelled from the spec: the limit of the Upload Coordinator's pool for a run with the
  parsed configuration \<open>config\<close> (section 4.6, "enqueue an upload bounded by a fixed upload
  concurrency"; section 5, "one bounded pool for upload"); the upload code is missing from
  the sources, which hold only the constant. The limit is fixed: it is the constant of
  \<^verbatim>\<open>config.ts\<close> and takes nothing from the configuration, where the capture and comparison
  pools are bounded by the configuration's \<^verbatim>\<open>shotConcurrency\<close> and \<^verbatim>\<open>compareConcurrency\<close>.
\<close>

definition uploadPoolLimit :: "jsval \<Rightarrow> nat" where
  "uploadPoolLimit config = MEDIA_UPLOAD_CONCURRENCY"

section \<open>parseConfig\<close>

text \<open>
  \<open>userConfig\<close> is an object, as its static type says (on a primitive the \<^verbatim>\<open>in\<close> operator
  of \<^verbatim>\<open>isPlatformModeConfig\<close> throws before anything is validated).
\<close>

definition isPlatformModeConfig :: "obj \<Rightarrow> bool" where
  "isPlatformModeConfig userConfig =
     (js_in ''apiKey'' userConfig \<or> js_in ''lostPixelProjectId'' userConfig)"

text \<open>
  What the process has done when a function is left: it returned a value, it called
  \<^verbatim>\<open>process.exit\<close> with a code, or it threw. The calls of \<^verbatim>\<open>log.process\<close> are kept in order,
  each with its level, its source and its text.
\<close>

datatype 'a outcome = Returned 'a | Exited nat | Threw string

datatype log_call = LogProcess string string string

definition issue_path :: "pathseg list \<Rightarrow> string" where
  "issue_path p = join ''.'' (map (\<lambda>seg. case seg of Key k \<Rightarrow> k | Idx i \<Rightarrow> show_nat i) p)"

definition config_error_text :: "zissue \<Rightarrow> string" where
  "config_error_text issue = join [CHR 0x0A]
     [''Configuration error:'',
      ''  - Path: '' @ issue_path (path issue),
      ''  - Message: '' @ message issue]"

definition printConfigErrors :: "zissue list \<Rightarrow> log_call list" where
  "printConfigErrors issues =
     map (\<lambda>issue. LogProcess ''error'' ''config'' (config_error_text issue)) issues"

definition parseConfig :: "env \<Rightarrow> obj \<Rightarrow> log_call list \<times> jsval outcome" where
  "parseConfig e userConfig =
     (if isPlatformModeConfig userConfig
      then (case safeParse (PlatformModeConfigSchema e) (Obj userConfig) of
              SafeParseSuccess d \<Rightarrow> ([], Returned d)
            | SafeParseError issues \<Rightarrow> (printConfigErrors issues, Exited 1))
      else (case safeParse GenerateOnlyModeConfigSchema (Obj userConfig) of
              SafeParseSuccess d \<Rightarrow> ([], Returned d)
            | SafeParseError issues \<Rightarrow> (printConfigErrors issues, Exited 1)))"

section \<open>configure\<close>

text \<open>
  \<open>configure\<close> is modelled from the point where \<^verbatim>\<open>loadProjectConfig\<close> has returned the
  object \<open>loaded\<close> (finding and importing the config file is file-system work, and its
  informational log lines are not kept). The value of the global \<^verbatim>\<open>config\<close> afterwards is
  what the model returns. \<open>setHostname x\<close> stands for the runtime's URL class:
  \<^verbatim>\<open>new URL(x)\<close>, \<^verbatim>\<open>hostname = 'localhost'\<close>, \<^verbatim>\<open>toString()\<close>, with \<open>None\<close> when the constructor
  throws on an invalid URL.
\<close>

definition forceGenerateOnly :: "obj \<Rightarrow> obj" where
  "forceGenerateOnly loadedProjectConfig =
     AList.update ''apiKey'' Undefined
       (AList.update ''lostPixelProjectId'' Undefined
         (AList.update ''generateOnly'' (Bool True) loadedProjectConfig))"

definition urlChunks :: "string list" where
  "urlChunks = [''http://'', ''https://'', ''127.0.0.1'']"

text \<open>
  The test \<^verbatim>\<open>baseUrl && urlChunks.some(chunk => baseUrl.includes(chunk))\<close> runs on whatever
  the unvalidated config holds: a string is searched, an array is asked for an element equal
  to a chunk, and a truthy value without an \<^verbatim>\<open>includes\<close> method makes the call throw. (An
  object that brings an \<^verbatim>\<open>includes\<close> function of its own would have it called; the model has
  no behaviour for functions and lets that case throw as well.)
\<close>

definition rewriteBaseUrl :: "(jsval \<Rightarrow> string option) \<Rightarrow> obj \<Rightarrow> obj outcome" where
  "rewriteBaseUrl setHostname localDebugConfig =
     (case js_get localDebugConfig ''pageShots'' of
        Obj pageShots \<Rightarrow>
          (let baseUrl = js_get pageShots ''baseUrl'' in
           if \<not> truthy baseUrl then Returned localDebugConfig
           else (case (case baseUrl of
                         Str s \<Rightarrow> Returned (list_ex (js_includes s) urlChunks)
                       | Arr xs \<Rightarrow> Returned (list_ex (\<lambda>chunk. Str chunk \<in> set xs) urlChunks)
                       | _ \<Rightarrow> Threw ''TypeError: baseUrl.includes is not a function'') of
                   Returned True \<Rightarrow>
                     (case setHostname baseUrl of
                        None \<Rightarrow> Threw ''TypeError: Invalid URL''
                      | Some url \<Rightarrow> Returned
                          (AList.update ''pageShots''
                             (Obj (AList.update ''baseUrl'' (Str url) pageShots))
                             localDebugConfig))
                 | Returned False \<Rightarrow> Returned localDebugConfig
                 | Exited n \<Rightarrow> Exited n
                 | Threw err \<Rightarrow> Threw err))
      | _ \<Rightarrow> Returned localDebugConfig)"

definition noShotsMode :: "obj \<Rightarrow> bool" where
  "noShotsMode c =
     (\<not> truthy (js_get c ''storybookShots'') \<and>
      \<not> truthy (js_get c ''pageShots'') \<and>
      \<not> truthy (js_get c ''ladleShots'') \<and>
      \<not> truthy (js_get c ''histoireShots'') \<and>
      \<not> truthy (js_get c ''customShots''))"

definition defaultStorybook :: "obj \<Rightarrow> obj" where
  "defaultStorybook c =
     (if noShotsMode c
      then AList.update ''storybookShots'' (Obj [(''storybookUrl'', Str ''storybook-static'')]) c
      else c)"

definition configure ::
  "env \<Rightarrow> (jsval \<Rightarrow> string option) \<Rightarrow> obj option \<Rightarrow> bool \<Rightarrow> obj
     \<Rightarrow> log_call list \<times> jsval outcome" where
  "configure e setHostname customProjectConfig localDebugMode loaded =
     (case customProjectConfig of
        Some custom \<Rightarrow> parseConfig e custom
      | None \<Rightarrow>
          (case (if localDebugMode
                 then rewriteBaseUrl setHostname
                        (if isPlatformModeConfig loaded then forceGenerateOnly loaded else loaded)
                 else Returned loaded) of
             Returned loadedProjectConfig \<Rightarrow> parseConfig e (defaultStorybook loadedProjectConfig)
           | Exited n \<Rightarrow> ([], Exited n)
           | Threw err \<Rightarrow> ([], Threw err)))"

section \<open>The threshold decision and the retry controller\<close>

text \<open>
  \<^verbatim>\<open>config.ts\<close> declares \<^verbatim>\<open>threshold\<close>, \<^verbatim>\<open>flakynessRetries\<close> and
  \<^verbatim>\<open>waitBetweenFlakynessRetries\<close> and documents the threshold ("Values between 0 and 1 are
  interpreted as percentage of the image size. Values greater or equal to 1 are interpreted as
  pixel count."); the code that compares images and the code that retries a capture are
  not in this file. Their models below follow the specification.
\<close>

text \<open>
  Modelled from the spec: the status of a \<^verbatim>\<open>ComparisonResult\<close> (section 3); the type is
  missing from the sources.
\<close>

datatype status = Passed | Failed | NewBaselineCreated | BaselineMissingAndKept | Error

text \<open>
  Modelled from the spec: the effective pixel limit of the Comparison Engine's threshold
  decision (section 4.4), \<^verbatim>\<open>threshold < 1 ? threshold * total : threshold\<close>; the comparison code
  is missing from the sources. The threshold is a rational here, not a double.
\<close>

definition effectiveLimit :: "rat \<Rightarrow> nat \<Rightarrow> rat" where
  "effectiveLimit threshold pixelsTotal =
     (if threshold < 1 then threshold * of_nat pixelsTotal else threshold)"

text \<open>
  Modelled from the spec: the threshold decision of the Comparison Engine (section 4.4),
  with \<open>total = width * height\<close> of the compared image: failed iff
  \<open>diffPixelCount > effectiveLimit\<close>, otherwise passed; the comparison code is missing from
  the sources.
\<close>

definition thresholdDecision :: "rat \<Rightarrow> nat \<Rightarrow> nat \<Rightarrow> nat \<Rightarrow> status" where
  "thresholdDecision threshold width height diffPixelCount =
     (if of_nat diffPixelCount > effectiveLimit threshold (width * height)
      then Failed else Passed)"

text \<open>
  What the retry controller does, in order: attempt number \<open>i\<close> of the target, or a wait of
  so many milliseconds.
\<close>

datatype retry_event = Attempt nat | Wait nat

text \<open>
  Modelled from the spec: the Flakiness Retry Controller (section 4.3); the capture code is
  missing from the sources. \<open>capture i\<close> is attempt number \<open>i\<close> (from 0) of one target: its
  result and whether it was judged unstable (it threw, timed out or differed from the attempt
  before; the spec leaves the judgement a policy). An unstable attempt is retried after a wait
  while budget remains; the last attempt's result is used unconditionally once the budget is
  exhausted. The function returns the attempts and waits in order, the result used and
  \<open>attemptsUsed\<close>.
\<close>

fun retryLoop ::
  "(nat \<Rightarrow> 'r \<times> bool) \<Rightarrow> nat \<Rightarrow> nat \<Rightarrow> nat \<Rightarrow> retry_event list \<times> 'r \<times> nat" where
  "retryLoop capture wait 0 i = ([Attempt i], fst (capture i), Suc i)"
| "retryLoop capture wait (Suc budget) i =
     (if snd (capture i)
      then (let (events, r, used) = retryLoop capture wait budget (Suc i)
            in (Attempt i # Wait wait # events, r, used))
      else ([Attempt i], fst (capture i), Suc i))"

text \<open>
  Modelled from the spec: one capture wrapped with up to \<open>flakynessRetries\<close> additional
  attempts, waiting \<open>waitBetweenFlakynessRetries\<close> ms between attempts (section 4.3); the
  capture code is missing from the sources. The retry count is a natural number here; the
  schema's \<^verbatim>\<open>z.number()\<close> would also let a negative or fractional value through.
\<close>

definition captureWithRetries ::
  "nat \<Rightarrow> nat \<Rightarrow> (nat \<Rightarrow> 'r \<times> bool) \<Rightarrow> retry_event list \<times> 'r \<times> nat" where
  "captureWithRetries flakynessRetries waitBetweenFlakynessRetries capture =
     retryLoop capture waitBetweenFlakynessRetries flakynessRetries 0"

text \<open>The attempts of a trace, and its waits.\<close>

definition attempts_of :: "retry_event list \<Rightarrow> nat list" where
  "attempts_of events = List.map_filter (\<lambda>ev. case ev of Attempt i \<Rightarrow> Some i | Wait ms \<Rightarrow> None) events"

definition waits_of :: "retry_event list \<Rightarrow> nat list" where
  "waits_of events = List.map_filter (\<lambda>ev. case ev of Attempt i \<Rightarrow> None | Wait ms \<Rightarrow> Some ms) events"

section \<open>Example environments\<close>

text \<open>A process without the CI variables, and one where the CI has set all five.\<close>

definition env_unset :: env where
  "env_unset = \<lparr>CI_BUILD_ID = None, CI_BUILD_NUMBER = None, REPOSITORY = None,
                 COMMIT_REF_NAME = None, COMMIT_HASH = None\<rparr>"

definition env_ci :: env where
  "env_ci = \<lparr>CI_BUILD_ID = Some ''4711'', CI_BUILD_NUMBER = Some ''12'',
              REPOSITORY = Some ''lost-pixel/lost-pixel'', COMMIT_REF_NAME = Some ''main'',
              COMMIT_HASH = Some ''b9b8b9b''\<rparr>"

text \<open>
  A runtime whose URL constructor refuses every input; the example configurations that
  use it have no \<^verbatim>\<open>pageShots\<close>, so it is never called.
\<close>

definition no_url :: "jsval \<Rightarrow> string option" where
  "no_url x = None"

text \<open>A target every attempt of which is judged unstable; attempt \<open>i\<close> yields image \<open>i\<close>.\<close>

definition always_unstable :: "nat \<Rightarrow> nat \<times> bool" where
  "always_unstable i = (i, True)"

section \<open>Properties of objects and of the parser\<close>

lemma js_get_update: "js_get (AList.update k v fs) k' = (if k' = k then v else js_get fs k')"
  by (simp add: js_get_def update_conv')

lemma js_in_update: "js_in k' (AList.update k v fs) = (k' = k \<or> js_in k' fs)"
  by (simp add: js_in_def update_conv')

lemma js_in_keys: "js_in k fs = (k \<in> fst ` set fs)"
  by (simp add: js_in_def map_of_eq_None_iff)

lemma js_get_absent: "k \<notin> fst ` set fs \<Longrightarrow> js_get fs k = Undefined"
  by (simp add: js_get_def map_of_eq_None_iff[THEN iffD2])

lemma parse_fields_Cons:
  "parse_fields ((k, pf) # rest) p fs =
     (fst (pf (p @ [Key k]) (js_get fs k)) @ fst (parse_fields rest p fs),
      if snd (pf (p @ [Key k]) (js_get fs k)) \<noteq> Undefined \<or> js_in k fs
      then (k, snd (pf (p @ [Key k]) (js_get fs k))) # snd (parse_fields rest p fs)
      else snd (parse_fields rest p fs))"
  by (simp add: split_beta)

lemma parse_elems_Cons:
  "parse_elems pf p i (x # xs) =
     (fst (pf (p @ [Idx i]) x) @ fst (parse_elems pf p (Suc i) xs),
      snd (pf (p @ [Idx i]) x) # snd (parse_elems pf p (Suc i) xs))"
  by (simp add: split_beta)

lemma parse_fields_issues:
  "fst (parse_fields pfs p fs) =
     concat (map (\<lambda>(k, pf). fst (pf (p @ [Key k]) (js_get fs k))) pfs)"
  by (induction pfs) (auto simp: parse_fields_Cons simp del: parse_fields.simps(2) split: if_splits)

lemma parse_fields_key:
  "(k, v) \<in> set (snd (parse_fields pfs p fs)) \<Longrightarrow> k \<in> fst ` set pfs"
  by (induction pfs) (auto simp: parse_fields_Cons simp del: parse_fields.simps(2) split: if_splits)

lemma parse_fields_keys: "fst ` set (snd (parse_fields pfs p fs)) \<subseteq> fst ` set pfs"
  using parse_fields_key by fastforce

lemma parse_fields_absent:
  "k \<notin> fst ` set pfs \<Longrightarrow> js_get (snd (parse_fields pfs p fs)) k = Undefined"
  using parse_fields_keys[of pfs p fs] by (intro js_get_absent) auto

lemma parse_fields_get:
  "distinct (map fst pfs) \<Longrightarrow> (k, pf) \<in> set pfs \<Longrightarrow>
     js_get (snd (parse_fields pfs p fs)) k = snd (pf (p @ [Key k]) (js_get fs k))"
proof (induction pfs)
  case Nil
  then show ?case by simp
next
  case (Cons a pfs)
  obtain k' pf' where a: "a = (k', pf')" by (cases a)
  show ?case
  proof (cases "k' = k")
    case True
    with Cons.prems a have pf: "pf' = pf" by (auto simp: image_iff)
    from Cons.prems a True have "k \<notin> fst ` set pfs" by auto
    then have "js_get (snd (parse_fields pfs p fs)) k = Undefined"
      by (rule parse_fields_absent)
    then show ?thesis using a True pf
      by (auto simp: js_get_def parse_fields_Cons simp del: parse_fields.simps(2) split: if_splits)
  next
    case False
    with Cons a show ?thesis 
      by (auto simp: js_get_def parse_fields_Cons simp del: parse_fields.simps(2) split: if_splits)
  qed
qed

lemma parse_elems_path:
  assumes "\<And>x p q. x \<in> set xs \<Longrightarrow> map message (fst (pf p x)) = map message (fst (pf q x)) \<and> snd (pf p x) = snd (pf q x)"
  shows "map message (fst (parse_elems pf p i xs)) = map message (fst (parse_elems pf q j xs)) \<and>
         snd (parse_elems pf p i xs) = snd (parse_elems pf q j xs)"
  using assms
proof (induction xs arbitrary: i j)
  case Nil
  then show ?case by simp
next
  case (Cons x xs)
  have 1: "map message (fst (pf (p @ [Idx i]) x)) = map message (fst (pf (q @ [Idx j]) x))"
       "snd (pf (p @ [Idx i]) x) = snd (pf (q @ [Idx j]) x)"
    using Cons.prems[of x] by auto
  have 2: "map message (fst (parse_elems pf p (Suc i) xs)) = map message (fst (parse_elems pf q (Suc j) xs)) \<and>
      snd (parse_elems pf p (Suc i) xs) = snd (parse_elems pf q (Suc j) xs)"
  proof (rule Cons.IH)
    fix y p' q'
    assume "y \<in> set xs"
    then have "y \<in> set (x # xs)" by simp
    then show "map message (fst (pf p' y)) = map message (fst (pf q' y)) \<and> snd (pf p' y) = snd (pf q' y)"
      by (rule Cons.prems)
  qed
  show ?case using 1 2 by (simp add: parse_elems_Cons del: parse_elems.simps(2))
qed

lemma parse_fields_path:
  assumes "\<And>k s p q v. (k, s) \<in> set shape \<Longrightarrow>
     map message (fst (parse s p v)) = map message (fst (parse s q v)) \<and>
     snd (parse s p v) = snd (parse s q v)"
  shows "map message (fst (parse_fields (map (map_prod id parse) shape) p fs)) =
          map message (fst (parse_fields (map (map_prod id parse) shape) q fs)) \<and>
          snd (parse_fields (map (map_prod id parse) shape) p fs) =
          snd (parse_fields (map (map_prod id parse) shape) q fs)"
  using assms
proof (induction shape)
  case Nil
  then show ?case by simp
next
  case (Cons a shape)
  obtain k s where a: "a = (k, s)" by (cases a)
  have h: "map message (fst (parse s (p @ [Key k]) (js_get fs k))) = map message (fst (parse s (q @ [Key k]) (js_get fs k)))"
      "snd (parse s (p @ [Key k]) (js_get fs k)) = snd (parse s (q @ [Key k]) (js_get fs k))"
    using Cons.prems[of k s] a by auto
  have ih: "map message (fst (parse_fields (map (map_prod id parse) shape) p fs)) =
      map message (fst (parse_fields (map (map_prod id parse) shape) q fs)) \<and>
      snd (parse_fields (map (map_prod id parse) shape) p fs) =
      snd (parse_fields (map (map_prod id parse) shape) q fs)"
  proof (rule Cons.IH)
    fix k' s' p' q' v'
    assume "(k', s') \<in> set shape"
    then have "(k', s') \<in> set (a # shape)" by simp
    then show "map message (fst (parse s' p' v')) = map message (fst (parse s' q' v')) \<and>
       snd (parse s' p' v') = snd (parse s' q' v')"
      by (rule Cons.prems)
  qed
  show ?case using h ih by (simp add: a parse_fields_Cons id_def del: parse_fields.simps(2))
qed

lemma parse_path:
  "map message (fst (parse s p v)) = map message (fst (parse s q v)) \<and>
   snd (parse s p v) = snd (parse s q v)"
proof (induction s arbitrary: p q v)
  case (ZArray s)
  show ?case
  proof (cases v)
    case (Arr xs)
    have "map message (fst (parse_elems (parse s) p 0 xs)) = map message (fst (parse_elems (parse s) q 0 xs)) \<and>
         snd (parse_elems (parse s) p 0 xs) = snd (parse_elems (parse s) q 0 xs)"
      by (rule parse_elems_path) (use ZArray in auto)
    then show ?thesis using Arr by (auto simp: split_beta)
  qed (auto simp: invalid_type_def)
next
  case (ZObject shape)
  show ?case
  proof (cases v)
    case (Obj fs)
    have "map message (fst (parse_fields (map (map_prod id parse) shape) p fs)) =
          map message (fst (parse_fields (map (map_prod id parse) shape) q fs)) \<and>
          snd (parse_fields (map (map_prod id parse) shape) p fs) =
          snd (parse_fields (map (map_prod id parse) shape) q fs)"
      by (rule parse_fields_path) (use ZObject in auto)
    then show ?thesis using Obj by (auto simp: split_beta)
  qed (auto simp: invalid_type_def)
qed (auto simp: invalid_type_def invalid_enum_value_def split: jsval.splits)

section \<open>The two configuration schemas, spread out\<close>

lemmas schema_defs =
  MaskSchema_def PageScreenshotParameterSchema_def StorybookShotsSchema_def
  LadleShotsSchema_def HistoireShotsSchema_def PageShotsSchema_def CustomShotsSchema_def
  TimeoutsSchema_def BaseConfigSchema_def

lemma GenerateOnly_shape:
  "GenerateOnlyModeConfigSchema = ZObject
     [(''browser'', ZDefault (ZEnum [''chromium'', ''firefox'', ''webkit'']) (Str ''chromium'')),
      (''storybookShots'', ZOptional StorybookShotsSchema),
      (''ladleShots'', ZOptional LadleShotsSchema),
      (''histoireShots'', ZOptional HistoireShotsSchema),
      (''pageShots'', ZOptional PageShotsSchema),
      (''customShots'', ZOptional CustomShotsSchema),
      (''imagePathCurrent'', ZDefault ZString (Str ''.lostpixel/current/'')),
      (''breakpoints'', ZDefault (ZArray ZNumber) (Arr [])),
      (''shotConcurrency'', ZDefault ZNumber (Num 5)),
      (''timeouts'', ZDefault TimeoutsSchema (Obj
         [(''fetchStories'', Num 30000),
          (''loadState'', Num 30000),
          (''networkRequests'', Num 30000)])),
      (''waitBeforeScreenshot'', ZDefault ZNumber (Num 1000)),
      (''waitForFirstRequest'', ZDefault ZNumber (Num 1000)),
      (''waitForLastRequest'', ZDefault ZNumber (Num 1000)),
      (''threshold'', ZDefault ZNumber (Num 0)),
      (''flakynessRetries'', ZDefault ZNumber (Num 0)),
      (''waitBetweenFlakynessRetries'', ZDefault ZNumber (Num 2000)),
      (''filterShot'', ZOptional ZFunction),
      (''shotNameGenerator'', ZOptional ZFunction),
      (''configureBrowser'', ZOptional ZFunction),
      (''beforeScreenshot'', ZOptional ZFunction),
      (''generateOnly'', ZOptional ZBoolean),
      (''failOnDifference'', ZOptional ZBoolean),
      (''imagePathBaseline'', ZDefault ZString (Str ''.lostpixel/baseline/'')),
      (''imagePathDifference'', ZDefault ZString (Str ''.lostpixel/difference/'')),
      (''compareConcurrency'', ZDefault ZNumber (Num 10)),
      (''compareEngine'', ZDefault (ZEnum [''pixelmatch'', ''odiff'']) (Str ''pixelmatch''))]"
  by (simp add: GenerateOnlyModeConfigSchema_def BaseConfigSchema_def)

lemma Platform_shape:
  "PlatformModeConfigSchema e = ZObject
     [(''browser'', ZDefault (ZEnum [''chromium'', ''firefox'', ''webkit'']) (Str ''chromium'')),
      (''storybookShots'', ZOptional StorybookShotsSchema),
      (''ladleShots'', ZOptional LadleShotsSchema),
      (''histoireShots'', ZOptional HistoireShotsSchema),
      (''pageShots'', ZOptional PageShotsSchema),
      (''customShots'', ZOptional CustomShotsSchema),
      (''imagePathCurrent'', ZDefault ZString (Str ''.lostpixel/current/'')),
      (''breakpoints'', ZDefault (ZArray ZNumber) (Arr [])),
      (''shotConcurrency'', ZDefault ZNumber (Num 5)),
      (''timeouts'', ZDefault TimeoutsSchema (Obj
         [(''fetchStories'', Num 30000),
          (''loadState'', Num 30000),
          (''networkRequests'', Num 30000)])),
      (''waitBeforeScreenshot'', ZDefault ZNumber (Num 1000)),
      (''waitForFirstRequest'', ZDefault ZNumber (Num 1000)),
      (''waitForLastRequest'', ZDefault ZNumber (Num 1000)),
      (''threshold'', ZDefault ZNumber (Num 0)),
      (''flakynessRetries'', ZDefault ZNumber (Num 0)),
      (''waitBetweenFlakynessRetries'', ZDefault ZNumber (Num 2000)),
      (''filterShot'', ZOptional ZFunction),
      (''shotNameGenerator'', ZOptional ZFunction),
      (''configureBrowser'', ZOptional ZFunction),
      (''beforeScreenshot'', ZOptional ZFunction),
      (''lostPixelPlatform'', ZDefault ZString (Str ''https://api.lost-pixel.com'')),
      (''apiKey'', ZString),
      (''lostPixelProjectId'', ZString),
      (''ciBuildId'', ZDefault ZString (env_value (CI_BUILD_ID e))),
      (''ciBuildNumber'', ZDefault ZString (env_value (CI_BUILD_NUMBER e))),
      (''repository'', ZDefault ZString (env_value (REPOSITORY e))),
      (''commitRefName'', ZDefault ZString (env_value (COMMIT_REF_NAME e))),
      (''commitHash'', ZDefault ZString (env_value (COMMIT_HASH e))),
      (''eventFilePath'', ZOptional ZString),
      (''setPendingStatusCheck'', ZDefault ZBoolean (Bool False))]"
  by (simp add: PlatformModeConfigSchema_def BaseConfigSchema_def)

lemma parse_object_issues:
  "fst (parse (ZObject shape) p (Obj c)) =
     concat (map (\<lambda>(k, s). fst (parse s (p @ [Key k]) (js_get c k))) shape)"
  by (simp add: case_prod_unfold parse_fields_issues comp_def)

lemma parse_object_data:
  "snd (parse (ZObject shape) p (Obj c)) =
     Obj (snd (parse_fields (map (map_prod id parse) shape) p c))"
  by (simp add: split_beta)

lemma parse_object_issue_in:
  "(k, s) \<in> set shape \<Longrightarrow> i \<in> set (fst (parse s (p @ [Key k]) (js_get c k))) \<Longrightarrow>
     i \<in> set (fst (parse (ZObject shape) p (Obj c)))"
  unfolding parse_object_issues by force

lemma parse_object_get:
  assumes "distinct (map fst shape)" and "(k, s) \<in> set shape"
  shows "js_get (snd (parse_fields (map (map_prod id parse) shape) p c)) k =
           snd (parse s (p @ [Key k]) (js_get c k))"
proof -
  have d: "distinct (map fst (map (map_prod id parse) shape))"
    using assms(1) by (simp add: comp_def)
  have m: "(k, parse s) \<in> set (map (map_prod id parse) shape)"
    using assms(2) by force
  show ?thesis by (rule parse_fields_get[OF d m])
qed

lemma parse_object_get_absent:
  assumes "k \<notin> fst ` set shape"
  shows "js_get (snd (parse_fields (map (map_prod id parse) shape) p c)) k = Undefined"
proof (rule parse_fields_absent)
  show "k \<notin> fst ` set (map (map_prod id parse) shape)"
    using assms by force
qed

lemma safeParse_Success_iff:
  "safeParse s v = SafeParseSuccess d \<longleftrightarrow> fst (parse s [] v) = [] \<and> d = snd (parse s [] v)"
  by (cases "parse s [] v"; cases "fst (parse s [] v)") (auto simp: safeParse_def)

lemma safeParse_Error_iff:
  "safeParse s v = SafeParseError is \<longleftrightarrow> fst (parse s [] v) = is \<and> is \<noteq> []"
  by (cases "parse s [] v"; cases "fst (parse s [] v)") (auto simp: safeParse_def)

lemma parse_ok_path: "fst (parse s p v) = [] \<Longrightarrow> fst (parse s q v) = []"
  using parse_path[of s p v q] by (metis map_is_Nil_conv)

lemma parse_data_path: "snd (parse s p v) = snd (parse s q v)"
  using parse_path[of s p v q] by simp

lemma parseConfig_selected:
  "parseConfig e c =
     (case safeParse (if isPlatformModeConfig c then PlatformModeConfigSchema e
                      else GenerateOnlyModeConfigSchema) (Obj c) of
        SafeParseSuccess d \<Rightarrow> ([], Returned d)
      | SafeParseError issues \<Rightarrow> (printConfigErrors issues, Exited 1))"
  by (simp add: parseConfig_def)

lemma parseConfig_Returned_iff:
  "parseConfig e c = (lg, Returned d) \<longleftrightarrow>
     lg = [] \<and> safeParse (if isPlatformModeConfig c then PlatformModeConfigSchema e
                      else GenerateOnlyModeConfigSchema) (Obj c) = SafeParseSuccess d"
  by (auto simp: parseConfig_selected split: safe_parse_result.splits)

lemma parseConfig_Error:
  "safeParse (if isPlatformModeConfig c then PlatformModeConfigSchema e
                      else GenerateOnlyModeConfigSchema) (Obj c) = SafeParseError issues \<Longrightarrow>
   parseConfig e c = (printConfigErrors issues, Exited 1)"
  by (simp add: parseConfig_selected)

section \<open>Changing one property of a configuration\<close>

lemma concat_map_Nil_iff: "concat (map f xs) = [] \<longleftrightarrow> (\<forall>x \<in> set xs. f x = [])"
  by (induction xs) auto

lemma parse_object_ok_iff:
  "fst (parse (ZObject shape) p (Obj c)) = [] \<longleftrightarrow>
     (\<forall>(k, s) \<in> set shape. fst (parse s (p @ [Key k]) (js_get c k)) = [])"
  unfolding parse_object_issues concat_map_Nil_iff by (simp add: case_prod_unfold)

lemma distinct_entry:
  "distinct (map fst shape) \<Longrightarrow> map_of shape k = Some s \<Longrightarrow> (k, s') \<in> set shape \<Longrightarrow> s' = s"
  by (metis map_of_is_SomeI option.inject)

lemma parse_object_update_ok:
  assumes ok: "fst (parse (ZObject shape) p (Obj c)) = []"
      and d: "distinct (map fst shape)"
      and e: "map_of shape k = Some s"
      and v: "fst (parse s (p @ [Key k]) v) = []"
  shows "fst (parse (ZObject shape) p (Obj (AList.update k v c))) = []"
  unfolding parse_object_ok_iff
proof (intro ballI, clarify)
  fix k' s'
  assume m: "(k', s') \<in> set shape"
  show "fst (parse s' (p @ [Key k']) (js_get (AList.update k v c) k')) = []"
  proof (cases "k' = k")
    case True
    with m d e have "s' = s" by (auto dest: distinct_entry)
    with True v show ?thesis by (simp add: js_get_update)
  next
    case False
    from ok m have "fst (parse s' (p @ [Key k']) (js_get c k')) = []"
      unfolding parse_object_ok_iff by blast
    with False show ?thesis by (simp add: js_get_update)
  qed
qed

lemma parse_object_update_other:
  assumes d: "distinct (map fst shape)" and n: "k' \<noteq> k"
  shows "js_get (snd (parse_fields (map (map_prod id parse) shape) p (AList.update k v c))) k' =
         js_get (snd (parse_fields (map (map_prod id parse) shape) p c)) k'"
proof (cases "k' \<in> fst ` set shape")
  case True
  then obtain s' where m: "(k', s') \<in> set shape" by auto
  show ?thesis
    unfolding parse_object_get[OF d m] using n by (simp add: js_get_update)
next
  case False
  then show ?thesis by (simp add: parse_object_get_absent)
qed

lemma isPlatformModeConfig_update:
  "k \<noteq> ''apiKey'' \<Longrightarrow> k \<noteq> ''lostPixelProjectId'' \<Longrightarrow>
     isPlatformModeConfig (AList.update k v c) = isPlatformModeConfig c"
  by (simp add: isPlatformModeConfig_def js_in_update)

lemma selected_shape:
  obtains shape where
    "(if P then PlatformModeConfigSchema e else GenerateOnlyModeConfigSchema) = ZObject shape"
    "distinct (map fst shape)"
    "map_of shape ''storybookShots'' = Some (ZOptional StorybookShotsSchema)"
    "map_of shape ''ladleShots'' = Some (ZOptional LadleShotsSchema)"
    "map_of shape ''histoireShots'' = Some (ZOptional HistoireShotsSchema)"
    "map_of shape ''pageShots'' = Some (ZOptional PageShotsSchema)"
    "map_of shape ''customShots'' = Some (ZOptional CustomShotsSchema)"
    "map_of shape ''compareEngine'' =
       (if P then None
        else Some (ZDefault (ZEnum [''pixelmatch'', ''odiff'']) (Str ''pixelmatch'')))"
proof (cases P)
  case True
  show ?thesis
    by (rule that, simp only: True if_True, rule Platform_shape) (simp_all add: True)
next
  case False
  show ?thesis
    by (rule that, simp only: False if_False, rule GenerateOnly_shape) (simp_all add: False)
qed

section \<open>Invalid configurations\<close>

text \<open>
  Claim C5. For every configuration that fails the validation of the schema
  \<open>parseConfig\<close> selects, each validation issue is passed to \<^verbatim>\<open>log.process\<close> as an error of
  the config source, with the issue's path joined by dots and its message, in the order of
  the issues; then the process exits with code 1. There is at least one issue, and
  \<open>parseConfig\<close> returns no value.
\<close>

theorem parseConfig_reports_every_issue:
  assumes "safeParse (if isPlatformModeConfig c then PlatformModeConfigSchema e
                      else GenerateOnlyModeConfigSchema) (Obj c) = SafeParseError issues"
  shows "parseConfig e c =
           (map (\<lambda>i. LogProcess ''error'' ''config''
                   (''Configuration error:'' @ [CHR 0x0A] @
                    ''  - Path: '' @ issue_path (path i) @ [CHR 0x0A] @
                    ''  - Message: '' @ message i)) issues,
            Exited 1) \<and>
         issues \<noteq> [] \<and>
         (\<forall>d. snd (parseConfig e c) \<noteq> Returned d)"
proof -
  have "parseConfig e c = (printConfigErrors issues, Exited 1)"
    using assms by (rule parseConfig_Error)
  moreover have "issues \<noteq> []"
    using assms by (simp add: safeParse_Error_iff)
  ultimately show ?thesis
    by (simp add: printConfigErrors_def config_error_text_def)
qed

theorem parseConfig_reports_every_issue_witness:
  "parseConfig env_unset [(''threshold'', Str ''high''), (''pageShots'', Obj [(''pages'', Arr [Num 7])])] =
     ([LogProcess ''error'' ''config''
         (''Configuration error:'' @ [CHR 0x0A] @ ''  - Path: pageShots.pages.0'' @ [CHR 0x0A] @
          ''  - Message: Expected object, received number''),
       LogProcess ''error'' ''config''
         (''Configuration error:'' @ [CHR 0x0A] @ ''  - Path: pageShots.baseUrl'' @ [CHR 0x0A] @
          ''  - Message: Required''),
       LogProcess ''error'' ''config''
         (''Configuration error:'' @ [CHR 0x0A] @ ''  - Path: threshold'' @ [CHR 0x0A] @
          ''  - Message: Expected number, received string'')],
      Exited 1)"
proof -
  let ?c = "[(''threshold'', Str ''high''), (''pageShots'', Obj [(''pages'', Arr [Num 7])])]"
  have h: "safeParse (if isPlatformModeConfig ?c then PlatformModeConfigSchema env_unset
                      else GenerateOnlyModeConfigSchema) (Obj ?c) =
           SafeParseError
             [ZodIssue [Key ''pageShots'', Key ''pages'', Idx 0] ''Expected object, received number'',
              ZodIssue [Key ''pageShots'', Key ''baseUrl''] ''Required'',
              ZodIssue [Key ''threshold''] ''Expected number, received string'']"
    by (simp add: isPlatformModeConfig_def js_in_def js_get_def safeParse_def GenerateOnly_shape
        schema_defs invalid_type_def)
  show ?thesis
    using parseConfig_reports_every_issue[OF h]
    by (simp add: issue_path_def show_nat.simps)
qed

section \<open>The choice of the schema\<close>

text \<open>
  Claim C9. \<open>isPlatformModeConfig\<close> holds exactly when the object has an \<^verbatim>\<open>apiKey\<close> or a
  \<^verbatim>\<open>lostPixelProjectId\<close> property; \<open>parseConfig\<close> validates against the platform schema exactly
  then and against the generate-only schema otherwise. In particular a configuration that
  carries an \<^verbatim>\<open>apiKey\<close> and no project id is validated as platform mode: it is refused, and
  the missing \<^verbatim>\<open>lostPixelProjectId\<close> is among the reported issues.
\<close>

theorem parseConfig_mode_dispatch:
  "(isPlatformModeConfig c \<longleftrightarrow>
      ''apiKey'' \<in> fst ` set c \<or> ''lostPixelProjectId'' \<in> fst ` set c) \<and>
   parseConfig e c =
     (case safeParse (if ''apiKey'' \<in> fst ` set c \<or> ''lostPixelProjectId'' \<in> fst ` set c
                      then PlatformModeConfigSchema e else GenerateOnlyModeConfigSchema) (Obj c) of
        SafeParseSuccess d \<Rightarrow> ([], Returned d)
      | SafeParseError issues \<Rightarrow> (printConfigErrors issues, Exited 1)) \<and>
   (''apiKey'' \<in> fst ` set c \<and> js_get c ''lostPixelProjectId'' = Undefined \<longrightarrow>
      snd (parseConfig e c) = Exited 1 \<and>
      LogProcess ''error'' ''config''
        (config_error_text (ZodIssue [Key ''lostPixelProjectId''] ''Required''))
        \<in> set (fst (parseConfig e c)))"
proof -
  have iff: "isPlatformModeConfig c \<longleftrightarrow>
      ''apiKey'' \<in> fst ` set c \<or> ''lostPixelProjectId'' \<in> fst ` set c"
    by (simp add: isPlatformModeConfig_def js_in_keys)
  have sel: "parseConfig e c =
     (case safeParse (if ''apiKey'' \<in> fst ` set c \<or> ''lostPixelProjectId'' \<in> fst ` set c
                      then PlatformModeConfigSchema e else GenerateOnlyModeConfigSchema) (Obj c) of
        SafeParseSuccess d \<Rightarrow> ([], Returned d)
      | SafeParseError issues \<Rightarrow> (printConfigErrors issues, Exited 1))"
    unfolding parseConfig_selected iff ..
  have part: "snd (parseConfig e c) = Exited 1 \<and>
      LogProcess ''error'' ''config''
        (config_error_text (ZodIssue [Key ''lostPixelProjectId''] ''Required''))
        \<in> set (fst (parseConfig e c))"
    if k: "''apiKey'' \<in> fst ` set c" and u: "js_get c ''lostPixelProjectId'' = Undefined"
  proof -
    let ?i = "ZodIssue [Key ''lostPixelProjectId''] ''Required''"
    let ?is = "fst (parse (PlatformModeConfigSchema e) [] (Obj c))"
    have p: "isPlatformModeConfig c" using k iff by simp
    have "?i \<in> set (fst (parse ZString ([] @ [Key ''lostPixelProjectId''])
                        (js_get c ''lostPixelProjectId'')))"
      by (simp add: u invalid_type_def)
    then have mem: "?i \<in> set ?is"
      unfolding Platform_shape by (rule parse_object_issue_in[rotated]) simp
    then have "?is \<noteq> []" by auto
    then have "safeParse (if isPlatformModeConfig c then PlatformModeConfigSchema e
                      else GenerateOnlyModeConfigSchema) (Obj c) = SafeParseError ?is"
      using p by (simp add: safeParse_Error_iff)
    then have "parseConfig e c = (printConfigErrors ?is, Exited 1)"
      by (rule parseConfig_Error)
    then show ?thesis using mem by (simp add: printConfigErrors_def)
  qed
  show ?thesis using iff sel part by blast
qed

theorem parseConfig_mode_dispatch_witness:
  "isPlatformModeConfig [(''apiKey'', Str ''secret'')] \<and>
   \<not> isPlatformModeConfig [(''threshold'', Num 0)] \<and>
   snd (parseConfig env_ci [(''apiKey'', Str ''secret'')]) = Exited 1 \<and>
   LogProcess ''error'' ''config''
     (''Configuration error:'' @ [CHR 0x0A] @ ''  - Path: lostPixelProjectId'' @ [CHR 0x0A] @
      ''  - Message: Required'')
     \<in> set (fst (parseConfig env_ci [(''apiKey'', Str ''secret'')]))"
proof -
  note platform = parseConfig_mode_dispatch[of "[(''apiKey'', Str ''secret'')]" env_ci]
  note generate = parseConfig_mode_dispatch[of "[(''threshold'', Num 0)]" env_ci]
  have 1: "isPlatformModeConfig [(''apiKey'', Str ''secret'')]"
    using platform[THEN conjunct1] by simp
  have 2: "\<not> isPlatformModeConfig [(''threshold'', Num 0)]"
    using generate[THEN conjunct1] by simp
  have 3: "snd (parseConfig env_ci [(''apiKey'', Str ''secret'')]) = Exited 1 \<and>
     LogProcess ''error'' ''config''
       (config_error_text (ZodIssue [Key ''lostPixelProjectId''] ''Required''))
     \<in> set (fst (parseConfig env_ci [(''apiKey'', Str ''secret'')]))"
    using platform[THEN conjunct2, THEN conjunct2] by (simp add: js_get_def)
  show ?thesis
    using 1 2 3 by (simp add: config_error_text_def issue_path_def)
qed

section \<open>A configuration without a shot source\<close>

lemma forceGenerateOnly_get:
  "k \<notin> {''apiKey'', ''lostPixelProjectId'', ''generateOnly''} \<Longrightarrow>
     js_get (forceGenerateOnly c) k = js_get c k"
  by (simp add: forceGenerateOnly_def js_get_update)

lemma noShotsMode_forceGenerateOnly: "noShotsMode (forceGenerateOnly c) = noShotsMode c"
  by (simp add: noShotsMode_def forceGenerateOnly_get)

lemma rewriteBaseUrl_no_pageShots:
  "\<not> truthy (js_get c ''pageShots'') \<Longrightarrow> rewriteBaseUrl setHostname c = Returned c"
  by (cases "js_get c ''pageShots''") (simp_all add: rewriteBaseUrl_def)


text \<open>
  Claim C1 says that a loaded configuration with none of \<^verbatim>\<open>storybookShots\<close>, \<^verbatim>\<open>ladleShots\<close>,
  \<^verbatim>\<open>histoireShots\<close>, \<^verbatim>\<open>pageShots\<close>, \<^verbatim>\<open>customShots\<close> set makes the pipeline raise a fatal
  configuration error. The empty configuration has no source, and \<open>configure\<close> logs
  nothing and returns: the parsed configuration has Storybook mode switched on ("Default to
  Storybook mode if no mode is defined").
\<close>

theorem configure_no_source_counterexample:
  "\<not> truthy (js_get [] ''storybookShots'') \<and>
   \<not> truthy (js_get [] ''ladleShots'') \<and>
   \<not> truthy (js_get [] ''histoireShots'') \<and>
   \<not> truthy (js_get [] ''pageShots'') \<and>
   \<not> truthy (js_get [] ''customShots'') \<and>
   configure env_unset no_url None False [] =
     ([],
      Returned
       (Obj [(''browser'', Str ''chromium''),
             (''storybookShots'', Obj [(''storybookUrl'', Str ''storybook-static'')]),
             (''imagePathCurrent'', Str ''.lostpixel/current/''),
             (''breakpoints'', Arr []),
             (''shotConcurrency'', Num 5),
             (''timeouts'',
              Obj [(''fetchStories'', Num 30000), (''loadState'', Num 30000),
                   (''networkRequests'', Num 30000)]),
             (''waitBeforeScreenshot'', Num 1000),
             (''waitForFirstRequest'', Num 1000),
             (''waitForLastRequest'', Num 1000),
             (''threshold'', Num 0),
             (''flakynessRetries'', Num 0),
             (''waitBetweenFlakynessRetries'', Num 2000),
             (''imagePathBaseline'', Str ''.lostpixel/baseline/''),
             (''imagePathDifference'', Str ''.lostpixel/difference/''),
             (''compareConcurrency'', Num 10),
             (''compareEngine'', Str ''pixelmatch'')]))"
  by (simp add: configure_def defaultStorybook_def noShotsMode_def parseConfig_def
      isPlatformModeConfig_def js_in_def js_get_def safeParse_def GenerateOnly_shape
      StorybookShotsSchema_def TimeoutsSchema_def)

text \<open>
  Claim C1, as amended. When the loaded configuration has no shot source (each of the five
  properties is missing or falsy), \<open>configure\<close> raises no error for that: it sets
  \<^verbatim>\<open>storybookShots\<close> to \<^verbatim>\<open>{ storybookUrl: 'storybook-static' }\<close>, a value the Storybook schema
  accepts, and the outcome is that of \<open>parseConfig\<close> on the configuration so completed (in
  local debug mode, after a platform configuration was rewritten by \<open>forceGenerateOnly\<close>).
\<close>

theorem configure_defaults_to_storybook:
  assumes "\<not> truthy (js_get loaded ''storybookShots'')"
      and "\<not> truthy (js_get loaded ''ladleShots'')"
      and "\<not> truthy (js_get loaded ''histoireShots'')"
      and "\<not> truthy (js_get loaded ''pageShots'')"
      and "\<not> truthy (js_get loaded ''customShots'')"
  shows "configure e setHostname None localDebugMode loaded =
           parseConfig e
             (AList.update ''storybookShots'' (Obj [(''storybookUrl'', Str ''storybook-static'')])
                (if localDebugMode \<and> isPlatformModeConfig loaded
                 then forceGenerateOnly loaded else loaded)) \<and>
         fst (parse StorybookShotsSchema [Key ''storybookShots'']
                (Obj [(''storybookUrl'', Str ''storybook-static'')])) = []"
proof -
  let ?c = "if localDebugMode \<and> isPlatformModeConfig loaded
            then forceGenerateOnly loaded else loaded"
  have n: "noShotsMode loaded"
    using assms by (simp add: noShotsMode_def)
  then have n': "noShotsMode ?c"
    by (simp add: noShotsMode_forceGenerateOnly)
  then have "\<not> truthy (js_get ?c ''pageShots'')"
    by (simp add: noShotsMode_def)
  then have r: "rewriteBaseUrl setHostname ?c = Returned ?c"
    by (rule rewriteBaseUrl_no_pageShots)
  have "configure e setHostname None localDebugMode loaded = parseConfig e (defaultStorybook ?c)"
  proof (cases localDebugMode)
    case True
    with r show ?thesis by (simp add: configure_def)
  next
    case False
    then show ?thesis by (simp add: configure_def)
  qed
  moreover have "defaultStorybook ?c =
      AList.update ''storybookShots'' (Obj [(''storybookUrl'', Str ''storybook-static'')]) ?c"
    using n' by (simp add: defaultStorybook_def)
  moreover have "fst (parse StorybookShotsSchema [Key ''storybookShots'']
                (Obj [(''storybookUrl'', Str ''storybook-static'')])) = []"
    by (simp add: StorybookShotsSchema_def js_get_def js_in_def)
  ultimately show ?thesis by simp
qed

theorem configure_defaults_to_storybook_witness:
  "configure env_unset no_url None True [(''threshold'', Num 3)] =
     ([],
      Returned
       (Obj [(''browser'', Str ''chromium''),
             (''storybookShots'', Obj [(''storybookUrl'', Str ''storybook-static'')]),
             (''imagePathCurrent'', Str ''.lostpixel/current/''),
             (''breakpoints'', Arr []),
             (''shotConcurrency'', Num 5),
             (''timeouts'',
              Obj [(''fetchStories'', Num 30000), (''loadState'', Num 30000),
                   (''networkRequests'', Num 30000)]),
             (''waitBeforeScreenshot'', Num 1000),
             (''waitForFirstRequest'', Num 1000),
             (''waitForLastRequest'', Num 1000),
             (''threshold'', Num 3),
             (''flakynessRetries'', Num 0),
             (''waitBetweenFlakynessRetries'', Num 2000),
             (''imagePathBaseline'', Str ''.lostpixel/baseline/''),
             (''imagePathDifference'', Str ''.lostpixel/difference/''),
             (''compareConcurrency'', Num 10),
             (''compareEngine'', Str ''pixelmatch'')]))"
proof -
  let ?c = "[(''threshold'', Num 3)]"
  have g: "\<not> isPlatformModeConfig ?c"
    by (simp add: isPlatformModeConfig_def js_in_def)
  have "configure env_unset no_url None True ?c =
          parseConfig env_unset
            (AList.update ''storybookShots'' (Obj [(''storybookUrl'', Str ''storybook-static'')])
               (if True \<and> isPlatformModeConfig ?c then forceGenerateOnly ?c else ?c))"
    by (rule configure_defaults_to_storybook[THEN conjunct1]) (simp_all add: js_get_def)
  then show ?thesis
    by (simp add: g parseConfig_def isPlatformModeConfig_def js_in_def js_get_def safeParse_def
        GenerateOnly_shape StorybookShotsSchema_def TimeoutsSchema_def)
qed

section \<open>The upload concurrency\<close>

lemma parse_object_keys:
  "\<exists>out. snd (parse (ZObject shape) p (Obj c)) = Obj out \<and>
         fst ` set out \<subseteq> set (schema_keys (ZObject shape))"
proof -
  have "fst ` set (snd (parse_fields (map (map_prod id parse) shape) p c))
          \<subseteq> fst ` set (map (map_prod id parse) shape)"
    by (rule parse_fields_keys)
  also have "fst ` set (map (map_prod id parse) shape) = set (schema_keys (ZObject shape))"
    by force
  finally show ?thesis unfolding parse_object_data by blast
qed

lemma selected_is_object:
  "\<exists>shape. (if isPlatformModeConfig c then PlatformModeConfigSchema e
             else GenerateOnlyModeConfigSchema) = ZObject shape"
  by (simp add: Platform_shape GenerateOnly_shape)

text \<open>
  Claim C8. The upload concurrency is the constant 10, \<open>MEDIA_UPLOAD_CONCURRENCY\<close>. It is
  not part of the configuration schema: neither schema has a field for it (their field
  names are listed), and a parsed configuration has no property beyond the fields of the
  schema that validated it. So the limit of the upload pool is 10 for every parsed
  configuration, and the same for any two of them, whatever the configurations and the
  environments they were parsed in.
\<close>

theorem upload_pool_limit_fixed:
  "MEDIA_UPLOAD_CONCURRENCY = 10 \<and>
   schema_keys (PlatformModeConfigSchema e) =
     [''browser'', ''storybookShots'', ''ladleShots'', ''histoireShots'', ''pageShots'',
         ''customShots'', ''imagePathCurrent'', ''breakpoints'', ''shotConcurrency'',
         ''timeouts'', ''waitBeforeScreenshot'', ''waitForFirstRequest'',
         ''waitForLastRequest'', ''threshold'', ''flakynessRetries'',
         ''waitBetweenFlakynessRetries'', ''filterShot'', ''shotNameGenerator'',
         ''configureBrowser'', ''beforeScreenshot'',
         ''lostPixelPlatform'', ''apiKey'', ''lostPixelProjectId'', ''ciBuildId'',
         ''ciBuildNumber'', ''repository'', ''commitRefName'', ''commitHash'',
         ''eventFilePath'', ''setPendingStatusCheck''] \<and>
   schema_keys GenerateOnlyModeConfigSchema =
     [''browser'', ''storybookShots'', ''ladleShots'', ''histoireShots'', ''pageShots'',
         ''customShots'', ''imagePathCurrent'', ''breakpoints'', ''shotConcurrency'',
         ''timeouts'', ''waitBeforeScreenshot'', ''waitForFirstRequest'',
         ''waitForLastRequest'', ''threshold'', ''flakynessRetries'',
         ''waitBetweenFlakynessRetries'', ''filterShot'', ''shotNameGenerator'',
         ''configureBrowser'', ''beforeScreenshot'',
         ''generateOnly'', ''failOnDifference'', ''imagePathBaseline'',
         ''imagePathDifference'', ''compareConcurrency'', ''compareEngine''] \<and>
   (\<forall>lg d. parseConfig e c = (lg, Returned d) \<longrightarrow>
      uploadPoolLimit d = 10 \<and>
      (\<exists>out. d = Obj out \<and>
         fst ` set out \<subseteq>
           set (schema_keys (if isPlatformModeConfig c then PlatformModeConfigSchema e
                             else GenerateOnlyModeConfigSchema)))) \<and>
   (\<forall>lg d lg' d'.
      parseConfig e c = (lg, Returned d) \<and> parseConfig e' c' = (lg', Returned d') \<longrightarrow>
      uploadPoolLimit d = uploadPoolLimit d')"
proof -
  let ?s = "if isPlatformModeConfig c then PlatformModeConfigSchema e
            else GenerateOnlyModeConfigSchema"
  have p: "schema_keys (PlatformModeConfigSchema e) =
     [''browser'', ''storybookShots'', ''ladleShots'', ''histoireShots'', ''pageShots'',
         ''customShots'', ''imagePathCurrent'', ''breakpoints'', ''shotConcurrency'',
         ''timeouts'', ''waitBeforeScreenshot'', ''waitForFirstRequest'',
         ''waitForLastRequest'', ''threshold'', ''flakynessRetries'',
         ''waitBetweenFlakynessRetries'', ''filterShot'', ''shotNameGenerator'',
         ''configureBrowser'', ''beforeScreenshot'',
         ''lostPixelPlatform'', ''apiKey'', ''lostPixelProjectId'', ''ciBuildId'',
         ''ciBuildNumber'', ''repository'', ''commitRefName'', ''commitHash'',
         ''eventFilePath'', ''setPendingStatusCheck'']"
    by (simp add: Platform_shape)
  have g: "schema_keys GenerateOnlyModeConfigSchema =
     [''browser'', ''storybookShots'', ''ladleShots'', ''histoireShots'', ''pageShots'',
         ''customShots'', ''imagePathCurrent'', ''breakpoints'', ''shotConcurrency'',
         ''timeouts'', ''waitBeforeScreenshot'', ''waitForFirstRequest'',
         ''waitForLastRequest'', ''threshold'', ''flakynessRetries'',
         ''waitBetweenFlakynessRetries'', ''filterShot'', ''shotNameGenerator'',
         ''configureBrowser'', ''beforeScreenshot'',
         ''generateOnly'', ''failOnDifference'', ''imagePathBaseline'',
         ''imagePathDifference'', ''compareConcurrency'', ''compareEngine'']"
    by (simp add: GenerateOnly_shape)
  have r: "\<exists>out. d = Obj out \<and> fst ` set out \<subseteq> set (schema_keys ?s)"
    if "parseConfig e c = (lg, Returned d)" for lg d
  proof -
    from that have d: "d = snd (parse ?s [] (Obj c))"
      unfolding parseConfig_Returned_iff safeParse_Success_iff by blast
    obtain shape where s: "?s = ZObject shape"
      using selected_is_object by blast
    show ?thesis
      unfolding d s by (rule parse_object_keys)
  qed
  have l: "uploadPoolLimit d = 10" for d
    by (simp add: uploadPoolLimit_def MEDIA_UPLOAD_CONCURRENCY_def)
  show ?thesis
  proof (intro conjI allI impI)
    show "MEDIA_UPLOAD_CONCURRENCY = 10" by (simp add: MEDIA_UPLOAD_CONCURRENCY_def)
  next
    fix lg d
    assume "parseConfig e c = (lg, Returned d)"
    then show "\<exists>out. d = Obj out \<and> fst ` set out \<subseteq> set (schema_keys ?s)" by (rule r)
  next
    fix lg d
    show "uploadPoolLimit d = 10" by (rule l)
  next
    fix lg d lg' d'
    show "uploadPoolLimit d = uploadPoolLimit d'" by (simp add: l)
  qed (rule p, rule g)
qed

theorem upload_pool_limit_fixed_witness:
  "\<exists>out out'.
     parseConfig env_unset [] = ([], Returned (Obj out)) \<and>
     parseConfig env_ci
       [(''apiKey'', Str ''secret''), (''lostPixelProjectId'', Str ''project''),
        (''shotConcurrency'', Num 50), (''uploadConcurrency'', Num 50)] =
       ([], Returned (Obj out')) \<and>
     js_get out ''shotConcurrency'' = Num 5 \<and>
     js_get out' ''shotConcurrency'' = Num 50 \<and>
     ''uploadConcurrency'' \<notin> fst ` set out' \<and>
     uploadPoolLimit (Obj out) = 10 \<and>
     uploadPoolLimit (Obj out') = 10 \<and>
     uploadPoolLimit (Obj out) = uploadPoolLimit (Obj out')"
proof -
  let ?c = "[]"
  let ?c' = "[(''apiKey'', Str ''secret''), (''lostPixelProjectId'', Str ''project''),
              (''shotConcurrency'', Num 50), (''uploadConcurrency'', Num 50)]"
  note t = upload_pool_limit_fixed[of env_unset ?c env_ci ?c']
  note t' = upload_pool_limit_fixed[of env_ci ?c' env_unset ?c]
  have p': "isPlatformModeConfig ?c'"
    by (simp add: isPlatformModeConfig_def js_in_def)
  obtain out where d: "parseConfig env_unset ?c = ([], Returned (Obj out))"
    and s: "js_get out ''shotConcurrency'' = Num 5"
    by (simp add: parseConfig_def isPlatformModeConfig_def js_in_def js_get_def safeParse_def
        GenerateOnly_shape schema_defs)
  obtain out' where d': "parseConfig env_ci ?c' = ([], Returned (Obj out'))"
    and s': "js_get out' ''shotConcurrency'' = Num 50"
    by (simp add: parseConfig_def isPlatformModeConfig_def js_in_def js_get_def safeParse_def
        Platform_shape schema_defs env_ci_def)
  note at = t[THEN conjunct2, THEN conjunct2, THEN conjunct2, THEN conjunct1, rule_format, OF d]
  note at' = t'[THEN conjunct2, THEN conjunct2, THEN conjunct2, THEN conjunct1, rule_format, OF d']
  have l: "uploadPoolLimit (Obj out) = 10"
    by (rule at[THEN conjunct1])
  have l': "uploadPoolLimit (Obj out') = 10"
    by (rule at'[THEN conjunct1])
  have e: "uploadPoolLimit (Obj out) = uploadPoolLimit (Obj out')"
    by (rule t[THEN conjunct2, THEN conjunct2, THEN conjunct2, THEN conjunct2, rule_format])
       (use d d' in simp)
  obtain fs where "Obj out' = Obj fs"
    and k: "fst ` set fs \<subseteq> set (schema_keys (PlatformModeConfigSchema env_ci))"
    using at'[THEN conjunct2] p' by auto
  then have k': "fst ` set out' \<subseteq> set (schema_keys (PlatformModeConfigSchema env_ci))"
    by simp
  have "''uploadConcurrency'' \<notin> set (schema_keys (PlatformModeConfigSchema env_ci))"
    unfolding t'[THEN conjunct2, THEN conjunct1] by simp
  with k' have n: "''uploadConcurrency'' \<notin> fst ` set out'" by blast
  show ?thesis
    using d d' s s' n l l' e by blast
qed

section \<open>Several shot sources at once\<close>

lemma family_object_defined:
  assumes "S \<in> {StorybookShotsSchema, LadleShotsSchema, HistoireShotsSchema, PageShotsSchema,
                CustomShotsSchema}"
  shows "fst (parse S p Undefined) \<noteq> []"
  using assms
  by (auto simp: StorybookShotsSchema_def LadleShotsSchema_def HistoireShotsSchema_def
      PageShotsSchema_def CustomShotsSchema_def)

text \<open>
  Claim C6 says that an accepted configuration enables at most one of the story-catalog,
  page-list and custom-folder families. The schemas make each of the five source
  properties optional on its own and relate none to another: a generate-only configuration
  with Storybook, page and custom shots together is accepted, and all three are in the
  parsed configuration.
\<close>

theorem shot_sources_exclusive_counterexample:
  "parseConfig env_unset
     [(''storybookShots'', Obj [(''storybookUrl'', Str ''storybook-static'')]),
      (''pageShots'', Obj [(''pages'', Arr []), (''baseUrl'', Str ''http://localhost:3000'')]),
      (''customShots'', Obj [(''currentShotsPath'', Str ''shots'')])] =
     ([],
      Returned
       (Obj [(''browser'', Str ''chromium''),
             (''storybookShots'', Obj [(''storybookUrl'', Str ''storybook-static'')]),
             (''pageShots'', Obj [(''pages'', Arr []), (''baseUrl'', Str ''http://localhost:3000'')]),
             (''customShots'', Obj [(''currentShotsPath'', Str ''shots'')]),
             (''imagePathCurrent'', Str ''.lostpixel/current/''),
             (''breakpoints'', Arr []),
             (''shotConcurrency'', Num 5),
             (''timeouts'',
              Obj [(''fetchStories'', Num 30000), (''loadState'', Num 30000),
                   (''networkRequests'', Num 30000)]),
             (''waitBeforeScreenshot'', Num 1000),
             (''waitForFirstRequest'', Num 1000),
             (''waitForLastRequest'', Num 1000),
             (''threshold'', Num 0),
             (''flakynessRetries'', Num 0),
             (''waitBetweenFlakynessRetries'', Num 2000),
             (''imagePathBaseline'', Str ''.lostpixel/baseline/''),
             (''imagePathDifference'', Str ''.lostpixel/difference/''),
             (''compareConcurrency'', Num 10),
             (''compareEngine'', Str ''pixelmatch'')]))"
  by (simp add: parseConfig_def isPlatformModeConfig_def js_in_def js_get_def safeParse_def
      GenerateOnly_shape schema_defs)

text \<open>
  Claim C6, as amended. The shot sources are independent. When \<open>parseConfig\<close> accepts a
  configuration, it also accepts that configuration with any one of \<^verbatim>\<open>storybookShots\<close>,
  \<^verbatim>\<open>ladleShots\<close>, \<^verbatim>\<open>histoireShots\<close>, \<^verbatim>\<open>pageShots\<close>, \<^verbatim>\<open>customShots\<close> set to a value its own
  schema accepts; the parsed configuration then holds that source as parsed, and every
  other property, the sources enabled before among them, as it was.
\<close>

theorem shot_sources_combine:
  assumes fam: "(k, S) \<in> {(''storybookShots'', StorybookShotsSchema),
                          (''ladleShots'', LadleShotsSchema),
                          (''histoireShots'', HistoireShotsSchema),
                          (''pageShots'', PageShotsSchema),
                          (''customShots'', CustomShotsSchema)}"
      and v: "safeParse S v = SafeParseSuccess v'"
      and c: "parseConfig e c = (lg, Returned (Obj out))"
  shows "\<exists>out'. parseConfig e (AList.update k v c) = ([], Returned (Obj out')) \<and>
                js_get out' k = v' \<and>
                (\<forall>k'. k' \<noteq> k \<longrightarrow> js_get out' k' = js_get out k')"
proof -
  let ?P = "isPlatformModeConfig c"
  let ?c' = "AList.update k v c"
  obtain shape where
    sel: "(if ?P then PlatformModeConfigSchema e else GenerateOnlyModeConfigSchema) = ZObject shape"
    and d: "distinct (map fst shape)"
    and sb: "map_of shape ''storybookShots'' = Some (ZOptional StorybookShotsSchema)"
    and la: "map_of shape ''ladleShots'' = Some (ZOptional LadleShotsSchema)"
    and hi: "map_of shape ''histoireShots'' = Some (ZOptional HistoireShotsSchema)"
    and pa: "map_of shape ''pageShots'' = Some (ZOptional PageShotsSchema)"
    and cu: "map_of shape ''customShots'' = Some (ZOptional CustomShotsSchema)"
    by (rule selected_shape[of ?P e])
  have entry: "map_of shape k = Some (ZOptional S)"
    using fam sb la hi pa cu by auto
  have nk: "k \<noteq> ''apiKey''" "k \<noteq> ''lostPixelProjectId''"
    using fam by auto
  have P': "isPlatformModeConfig ?c' = ?P"
    using nk by (rule isPlatformModeConfig_update)
  have vok: "fst (parse S [] v) = []" and v': "v' = snd (parse S [] v)"
    using v by (simp_all add: safeParse_Success_iff)
  have "S \<in> {StorybookShotsSchema, LadleShotsSchema, HistoireShotsSchema, PageShotsSchema,
              CustomShotsSchema}"
    using fam by auto
  then have "fst (parse S [] Undefined) \<noteq> []"
    by (rule family_object_defined)
  with vok have vdef: "v \<noteq> Undefined" by auto
  have field: "parse (ZOptional S) ([] @ [Key k]) v = parse S [Key k] v"
    using vdef by simp
  have fok: "fst (parse (ZOptional S) ([] @ [Key k]) v) = []"
    unfolding field using vok by (rule parse_ok_path)
  have cok: "fst (parse (ZObject shape) [] (Obj c)) = []"
    and o: "Obj out = snd (parse (ZObject shape) [] (Obj c))"
    using c unfolding parseConfig_Returned_iff safeParse_Success_iff sel by simp_all
  have ok': "fst (parse (ZObject shape) [] (Obj ?c')) = []"
    using cok d entry fok by (rule parse_object_update_ok)
  let ?out' = "snd (parse_fields (map (map_prod id parse) shape) [] ?c')"
  have ret: "parseConfig e ?c' = ([], Returned (Obj ?out'))"
    unfolding parseConfig_Returned_iff safeParse_Success_iff P' sel
    using ok' by (simp del: parse.simps add: parse_object_data)
  have m: "(k, ZOptional S) \<in> set shape"
    using entry by (rule map_of_SomeD)
  have "js_get ?out' k = snd (parse (ZOptional S) ([] @ [Key k]) (js_get ?c' k))"
    using d m by (rule parse_object_get)
  also have "\<dots> = snd (parse S [Key k] v)"
    using field by (simp add: js_get_update)
  also have "\<dots> = v'"
    unfolding v' by (rule parse_data_path)
  finally have at_k: "js_get ?out' k = v'" .
  have o': "out = snd (parse_fields (map (map_prod id parse) shape) [] c)"
    using o by (simp del: parse.simps add: parse_object_data)
  have other: "js_get ?out' k' = js_get out k'" if "k' \<noteq> k" for k'
    unfolding o' using d that by (rule parse_object_update_other)
  show ?thesis
    using ret at_k other by blast
qed

theorem shot_sources_combine_witness:
  "\<exists>out'. parseConfig env_unset
            [(''storybookShots'', Obj [(''storybookUrl'', Str ''storybook-static'')]),
             (''customShots'', Obj [(''currentShotsPath'', Str ''shots'')])] =
            ([], Returned (Obj out')) \<and>
          js_get out' ''customShots'' = Obj [(''currentShotsPath'', Str ''shots'')] \<and>
          js_get out' ''storybookShots'' = Obj [(''storybookUrl'', Str ''storybook-static'')]"
proof -
  let ?c = "[(''storybookShots'', Obj [(''storybookUrl'', Str ''storybook-static'')])]"
  let ?v = "Obj [(''currentShotsPath'', Str ''shots'')]"
  have fam: "(''customShots'', CustomShotsSchema) \<in>
      {(''storybookShots'', StorybookShotsSchema), (''ladleShots'', LadleShotsSchema),
       (''histoireShots'', HistoireShotsSchema), (''pageShots'', PageShotsSchema),
       (''customShots'', CustomShotsSchema)}"
    by simp
  have v: "safeParse CustomShotsSchema ?v = SafeParseSuccess ?v"
    by (simp add: safeParse_def CustomShotsSchema_def js_get_def js_in_def)
  obtain out where c: "parseConfig env_unset ?c = ([], Returned (Obj out))"
    and sb: "js_get out ''storybookShots'' = Obj [(''storybookUrl'', Str ''storybook-static'')]"
    by (simp add: parseConfig_def isPlatformModeConfig_def js_in_def js_get_def safeParse_def
      GenerateOnly_shape schema_defs)
  from shot_sources_combine[OF fam v c]
  obtain out' where "parseConfig env_unset (AList.update ''customShots'' ?v ?c) = ([], Returned (Obj out'))"
    "js_get out' ''customShots'' = ?v"
    "js_get out' ''storybookShots'' = js_get out ''storybookShots''"
    by auto
  with sb show ?thesis by auto
qed

section \<open>The comparison engine\<close>

lemma parseConfig_not_ok:
  assumes "fst (parse (if isPlatformModeConfig c then PlatformModeConfigSchema e
                       else GenerateOnlyModeConfigSchema) [] (Obj c)) \<noteq> []"
  shows "snd (parseConfig e c) = Exited 1"
proof -
  let ?s = "if isPlatformModeConfig c then PlatformModeConfigSchema e
            else GenerateOnlyModeConfigSchema"
  have "safeParse ?s (Obj c) = SafeParseError (fst (parse ?s [] (Obj c)))"
    using assms unfolding safeParse_Error_iff by simp
  then have "parseConfig e c = (printConfigErrors (fst (parse ?s [] (Obj c))), Exited 1)"
    by (rule parseConfig_Error)
  then show ?thesis by simp
qed

lemma compareEngine_field_issue:
  assumes "v \<notin> {Undefined, Str ''pixelmatch'', Str ''odiff''}"
  shows "fst (parse (ZDefault (ZEnum [''pixelmatch'', ''odiff'']) (Str ''pixelmatch'')) p v) \<noteq> []"
  using assms by (cases v) auto

lemma compareEngine_field_ok:
  assumes "v \<in> {Undefined, Str ''pixelmatch'', Str ''odiff''}"
  shows "fst (parse (ZDefault (ZEnum [''pixelmatch'', ''odiff'']) (Str ''pixelmatch'')) p v) = []"
  using assms by auto

lemma compareEngine_field_data:
  "snd (parse (ZDefault (ZEnum [''pixelmatch'', ''odiff'']) (Str ''pixelmatch'')) p v) =
     (if v = Undefined then Str ''pixelmatch'' else v)"
  by (cases v) auto

text \<open>
  Claim C7 says that any value of \<^verbatim>\<open>compareEngine\<close> other than \<^verbatim>\<open>'pixelmatch'\<close> and
  \<^verbatim>\<open>'odiff'\<close> is rejected by configuration parsing. \<^verbatim>\<open>compareEngine\<close> is a field of the
  generate-only schema alone. A configuration with an \<^verbatim>\<open>apiKey\<close> is validated against the
  platform schema, for which the property is an unknown key: it is dropped, whatever
  its value, and the configuration is accepted.
\<close>

theorem compareEngine_platform_counterexample:
  "parseConfig env_ci
     [(''apiKey'', Str ''secret''), (''lostPixelProjectId'', Str ''project''),
      (''compareEngine'', Str ''nonsense'')] =
     ([],
      Returned
       (Obj [(''browser'', Str ''chromium''),
             (''imagePathCurrent'', Str ''.lostpixel/current/''),
             (''breakpoints'', Arr []),
             (''shotConcurrency'', Num 5),
             (''timeouts'',
              Obj [(''fetchStories'', Num 30000), (''loadState'', Num 30000),
                   (''networkRequests'', Num 30000)]),
             (''waitBeforeScreenshot'', Num 1000),
             (''waitForFirstRequest'', Num 1000),
             (''waitForLastRequest'', Num 1000),
             (''threshold'', Num 0),
             (''flakynessRetries'', Num 0),
             (''waitBetweenFlakynessRetries'', Num 2000),
             (''lostPixelPlatform'', Str ''https://api.lost-pixel.com''),
             (''apiKey'', Str ''secret''),
             (''lostPixelProjectId'', Str ''project''),
             (''ciBuildId'', Str ''4711''),
             (''ciBuildNumber'', Str ''12''),
             (''repository'', Str ''lost-pixel/lost-pixel''),
             (''commitRefName'', Str ''main''),
             (''commitHash'', Str ''b9b8b9b''),
             (''setPendingStatusCheck'', Bool False)]))"
  by (simp add: parseConfig_def isPlatformModeConfig_def js_in_def js_get_def safeParse_def
      Platform_shape schema_defs env_ci_def)

text \<open>
  Claim C7, as amended. For a configuration validated in generate-only mode (it has neither
  an \<^verbatim>\<open>apiKey\<close> nor a \<^verbatim>\<open>lostPixelProjectId\<close> property): a \<^verbatim>\<open>compareEngine\<close> other than
  \<^verbatim>\<open>'pixelmatch'\<close>, \<^verbatim>\<open>'odiff'\<close> or unspecified makes \<open>parseConfig\<close> exit with code 1; an
  accepted configuration has the engine it specified, or \<^verbatim>\<open>'pixelmatch'\<close> when it specified
  none; and an accepted configuration stays accepted when its engine is set to either
  variant or left unspecified. For a configuration validated in platform mode the parsed
  configuration has no \<^verbatim>\<open>compareEngine\<close>.
\<close>

theorem compareEngine_selection:
  "(\<not> isPlatformModeConfig c \<longrightarrow>
      (js_get c ''compareEngine'' \<notin> {Undefined, Str ''pixelmatch'', Str ''odiff''} \<longrightarrow>
         snd (parseConfig e c) = Exited 1) \<and>
      (\<forall>lg d. parseConfig e c = (lg, Returned d) \<longrightarrow>
         (\<exists>out. d = Obj out \<and>
            js_get out ''compareEngine'' =
              (if js_get c ''compareEngine'' = Undefined then Str ''pixelmatch''
               else js_get c ''compareEngine'')) \<and>
         (\<forall>v \<in> {Undefined, Str ''pixelmatch'', Str ''odiff''}.
            \<exists>d'. parseConfig e (AList.update ''compareEngine'' v c) = ([], Returned d')))) \<and>
   (isPlatformModeConfig c \<longrightarrow>
      (\<forall>lg d. parseConfig e c = (lg, Returned d) \<longrightarrow>
         (\<exists>out. d = Obj out \<and> js_get out ''compareEngine'' = Undefined)))"
proof -
  let ?P = "isPlatformModeConfig c"
  let ?ce = "ZDefault (ZEnum [''pixelmatch'', ''odiff'']) (Str ''pixelmatch'')"
  obtain shape where
    sel: "(if ?P then PlatformModeConfigSchema e else GenerateOnlyModeConfigSchema) = ZObject shape"
    and d: "distinct (map fst shape)"
    and ce: "map_of shape ''compareEngine'' = (if ?P then None else Some ?ce)"
    by (rule selected_shape[of ?P e])
  have ret: "fst (parse (ZObject shape) [] (Obj c)) = [] \<and>
             d' = Obj (snd (parse_fields (map (map_prod id parse) shape) [] c))"
    if "parseConfig e c = (lg, Returned d')" for lg d'
    using that unfolding parseConfig_Returned_iff safeParse_Success_iff sel parse_object_data
    by simp
  have reject: "snd (parseConfig e c) = Exited 1"
    if g: "\<not> ?P" and v: "js_get c ''compareEngine'' \<notin> {Undefined, Str ''pixelmatch'', Str ''odiff''}"
  proof -
    have m: "(''compareEngine'', ?ce) \<in> set shape"
      using ce g by (simp add: map_of_SomeD)
    have "fst (parse ?ce ([] @ [Key ''compareEngine'']) (js_get c ''compareEngine'')) \<noteq> []"
      using v by (rule compareEngine_field_issue)
    with m have "fst (parse (ZObject shape) [] (Obj c)) \<noteq> []"
      unfolding parse_object_ok_iff by blast
    then show ?thesis
      unfolding sel[symmetric] by (rule parseConfig_not_ok)
  qed
  have data: "\<exists>out. d' = Obj out \<and>
            js_get out ''compareEngine'' =
              (if js_get c ''compareEngine'' = Undefined then Str ''pixelmatch''
               else js_get c ''compareEngine'')"
    if g: "\<not> ?P" and r: "parseConfig e c = (lg, Returned d')" for lg d'
  proof -
    have m: "(''compareEngine'', ?ce) \<in> set shape"
      using ce g by (simp add: map_of_SomeD)
    have "js_get (snd (parse_fields (map (map_prod id parse) shape) [] c)) ''compareEngine'' =
          snd (parse ?ce ([] @ [Key ''compareEngine'']) (js_get c ''compareEngine''))"
      using d m by (rule parse_object_get)
    then show ?thesis
      using ret[OF r] unfolding compareEngine_field_data by blast
  qed
  have accept: "\<exists>d''. parseConfig e (AList.update ''compareEngine'' v c) = ([], Returned d'')"
    if g: "\<not> ?P" and r: "parseConfig e c = (lg, Returned d')"
      and v: "v \<in> {Undefined, Str ''pixelmatch'', Str ''odiff''}" for lg d' v
  proof -
    have P': "isPlatformModeConfig (AList.update ''compareEngine'' v c) = ?P"
      by (rule isPlatformModeConfig_update) simp_all
    have entry: "map_of shape ''compareEngine'' = Some ?ce"
      using ce g by simp
    have fok: "fst (parse ?ce ([] @ [Key ''compareEngine'']) v) = []"
      using v by (rule compareEngine_field_ok)
    have cok: "fst (parse (ZObject shape) [] (Obj c)) = []"
      using ret[OF r] by simp
    have "fst (parse (ZObject shape) [] (Obj (AList.update ''compareEngine'' v c))) = []"
      using cok d entry fok by (rule parse_object_update_ok)
    then show ?thesis
      unfolding parseConfig_Returned_iff safeParse_Success_iff P' sel by simp
  qed
  have dropped: "\<exists>out. d' = Obj out \<and> js_get out ''compareEngine'' = Undefined"
    if p: "?P" and r: "parseConfig e c = (lg, Returned d')" for lg d'
  proof -
    have "map_of shape ''compareEngine'' = None"
      using ce p by simp
    then have "''compareEngine'' \<notin> fst ` set shape"
      by (simp add: map_of_eq_None_iff)
    then have "js_get (snd (parse_fields (map (map_prod id parse) shape) [] c)) ''compareEngine'' =
          Undefined"
      by (rule parse_object_get_absent)
    then show ?thesis
      using ret[OF r] by blast
  qed
  show ?thesis
    using reject data accept dropped by blast
qed

theorem compareEngine_selection_witness:
  "snd (parseConfig env_unset [(''compareEngine'', Str ''webp'')]) = Exited 1 \<and>
   (\<exists>out. parseConfig env_unset [] = ([], Returned (Obj out)) \<and>
          js_get out ''compareEngine'' = Str ''pixelmatch'') \<and>
   (\<exists>d. parseConfig env_unset [(''compareEngine'', Str ''odiff'')] = ([], Returned d))"
proof -
  have g1: "\<not> isPlatformModeConfig [(''compareEngine'', Str ''webp'')]"
    and g2: "\<not> isPlatformModeConfig []"
    by (simp_all add: isPlatformModeConfig_def js_in_def)
  note t1 = compareEngine_selection[of "[(''compareEngine'', Str ''webp'')]" env_unset,
      THEN conjunct1, rule_format, OF g1]
  note t2 = compareEngine_selection[of "[]" env_unset, THEN conjunct1, rule_format, OF g2]
  have 1: "snd (parseConfig env_unset [(''compareEngine'', Str ''webp'')]) = Exited 1"
    by (rule t1[THEN conjunct1, rule_format]) (simp add: js_get_def)
  obtain d where r: "parseConfig env_unset [] = ([], Returned d)"
    by (simp add: parseConfig_def isPlatformModeConfig_def js_in_def js_get_def safeParse_def
      GenerateOnly_shape schema_defs)
  note t3 = t2[THEN conjunct2, rule_format, OF r]
  from t3[THEN conjunct1] obtain out where o: "d = Obj out"
    and e: "js_get out ''compareEngine'' = Str ''pixelmatch''"
    by (auto simp: js_get_def)
  have "\<exists>d'. parseConfig env_unset (AList.update ''compareEngine'' (Str ''odiff'') []) =
          ([], Returned d')"
    by (rule t3[THEN conjunct2, rule_format]) simp
  then have 3: "\<exists>d. parseConfig env_unset [(''compareEngine'', Str ''odiff'')] = ([], Returned d)"
    by simp
  show ?thesis
    using 1 r o e 3 by blast
qed

section \<open>Local debug mode\<close>

text \<open>
  In local debug mode \<open>configure\<close> rewrites a platform configuration with
  \<^verbatim>\<open>{ ...loaded, generateOnly: true, lostPixelProjectId: undefined, apiKey: undefined }\<close>, to
  "force it into generateOnly mode by dropping the platform specific properties". The
  spread keeps both properties, with the value \<^verbatim>\<open>undefined\<close>; \<^verbatim>\<open>'apiKey' in config\<close> is still
  true, the platform schema is applied, and it finds both strings missing.
\<close>

lemma forceGenerateOnly_still_platform: "isPlatformModeConfig (forceGenerateOnly c)"
  by (simp add: isPlatformModeConfig_def forceGenerateOnly_def js_in_update)

lemma forceGenerateOnly_rejected: "snd (parseConfig e (forceGenerateOnly c)) = Exited 1"
proof -
  let ?c = "forceGenerateOnly c"
  have u: "js_get ?c ''apiKey'' = Undefined"
    by (simp add: forceGenerateOnly_def js_get_update)
  have "ZodIssue [Key ''apiKey''] ''Required''
          \<in> set (fst (parse ZString ([] @ [Key ''apiKey'']) (js_get ?c ''apiKey'')))"
    by (simp add: u invalid_type_def)
  then have "ZodIssue [Key ''apiKey''] ''Required''
          \<in> set (fst (parse (PlatformModeConfigSchema e) [] (Obj ?c)))"
    unfolding Platform_shape by (rule parse_object_issue_in[rotated]) simp
  then have "fst (parse (PlatformModeConfigSchema e) [] (Obj ?c)) \<noteq> []"
    by auto
  then have "fst (parse (if isPlatformModeConfig ?c then PlatformModeConfigSchema e
                         else GenerateOnlyModeConfigSchema) [] (Obj ?c)) \<noteq> []"
    by (simp add: forceGenerateOnly_still_platform)
  then show ?thesis by (rule parseConfig_not_ok)
qed

text \<open>
  Claim C10 says that local debug mode forces a platform configuration into generate-only
  mode by removing \<^verbatim>\<open>lostPixelProjectId\<close> and \<^verbatim>\<open>apiKey\<close>. On a platform configuration with
  Storybook shots the rewritten object still has both properties, it is still a
  platform-mode configuration, and \<open>configure\<close>, which accepts the configuration when
  local debug mode is off, reports \<^verbatim>\<open>apiKey\<close> and
  \<^verbatim>\<open>lostPixelProjectId\<close> as required and exits with code 1.
\<close>

theorem configure_localDebug_platform_exits:
  "forceGenerateOnly
     [(''apiKey'', Str ''secret''), (''lostPixelProjectId'', Str ''project''),
      (''storybookShots'', Obj [(''storybookUrl'', Str ''storybook-static'')])] =
     [(''apiKey'', Undefined), (''lostPixelProjectId'', Undefined),
      (''storybookShots'', Obj [(''storybookUrl'', Str ''storybook-static'')]),
      (''generateOnly'', Bool True)] \<and>
   isPlatformModeConfig
     (forceGenerateOnly
       [(''apiKey'', Str ''secret''), (''lostPixelProjectId'', Str ''project''),
        (''storybookShots'', Obj [(''storybookUrl'', Str ''storybook-static'')])]) \<and>
   configure env_ci no_url None False
     [(''apiKey'', Str ''secret''), (''lostPixelProjectId'', Str ''project''),
      (''storybookShots'', Obj [(''storybookUrl'', Str ''storybook-static'')])] =
     ([],
      Returned
       (Obj [(''browser'', Str ''chromium''),
             (''storybookShots'', Obj [(''storybookUrl'', Str ''storybook-static'')]),
             (''imagePathCurrent'', Str ''.lostpixel/current/''),
             (''breakpoints'', Arr []),
             (''shotConcurrency'', Num 5),
             (''timeouts'',
              Obj [(''fetchStories'', Num 30000), (''loadState'', Num 30000),
                   (''networkRequests'', Num 30000)]),
             (''waitBeforeScreenshot'', Num 1000),
             (''waitForFirstRequest'', Num 1000),
             (''waitForLastRequest'', Num 1000),
             (''threshold'', Num 0),
             (''flakynessRetries'', Num 0),
             (''waitBetweenFlakynessRetries'', Num 2000),
             (''lostPixelPlatform'', Str ''https://api.lost-pixel.com''),
             (''apiKey'', Str ''secret''),
             (''lostPixelProjectId'', Str ''project''),
             (''ciBuildId'', Str ''4711''),
             (''ciBuildNumber'', Str ''12''),
             (''repository'', Str ''lost-pixel/lost-pixel''),
             (''commitRefName'', Str ''main''),
             (''commitHash'', Str ''b9b8b9b''),
             (''setPendingStatusCheck'', Bool False)])) \<and>
   configure env_ci no_url None True
     [(''apiKey'', Str ''secret''), (''lostPixelProjectId'', Str ''project''),
      (''storybookShots'', Obj [(''storybookUrl'', Str ''storybook-static'')])] =
     ([LogProcess ''error'' ''config''
         (''Configuration error:'' @ [CHR 0x0A] @ ''  - Path: apiKey'' @ [CHR 0x0A] @
          ''  - Message: Required''),
       LogProcess ''error'' ''config''
         (''Configuration error:'' @ [CHR 0x0A] @ ''  - Path: lostPixelProjectId'' @ [CHR 0x0A] @
          ''  - Message: Required'')],
      Exited 1)"
  by (simp add: configure_def forceGenerateOnly_def rewriteBaseUrl_def defaultStorybook_def
      noShotsMode_def parseConfig_def isPlatformModeConfig_def js_in_def js_get_def
      safeParse_def Platform_shape schema_defs env_ci_def invalid_type_def
      printConfigErrors_def config_error_text_def issue_path_def)


section \<open>The threshold decision\<close>

text \<open>
  Claim C2. With \<open>total = width * height\<close>, the effective limit is \<open>threshold * total\<close> when
  \<open>threshold < 1\<close> and the threshold itself otherwise, and the status is failed exactly when
  \<open>diffPixelCount\<close> exceeds the limit, passed otherwise. As the count is a whole number, a
  threshold below 1 tolerates \<open>\<lfloor>threshold * total\<rfloor>\<close> differing pixels, a fraction of the
  image, and a threshold from 1 on tolerates \<open>\<lfloor>threshold\<rfloor>\<close> pixels.
\<close>

theorem threshold_decision:
  "effectiveLimit t (w * h) = (if t < 1 then t * of_nat (w * h) else t) \<and>
   (thresholdDecision t w h d = Failed \<longleftrightarrow> of_nat d > effectiveLimit t (w * h)) \<and>
   (thresholdDecision t w h d = Passed \<longleftrightarrow> \<not> of_nat d > effectiveLimit t (w * h)) \<and>
   (t < 1 \<longrightarrow> (thresholdDecision t w h d = Failed \<longleftrightarrow> int d > \<lfloor>t * of_nat (w * h)\<rfloor>)) \<and>
   (1 \<le> t \<longrightarrow> (thresholdDecision t w h d = Failed \<longleftrightarrow> int d > \<lfloor>t\<rfloor>))"
proof -
  have fl: "(of_nat d > x) \<longleftrightarrow> (int d > \<lfloor>x\<rfloor>)" for x :: rat
    by (simp add: floor_less_iff)
  have f: "thresholdDecision t w h d = Failed \<longleftrightarrow> of_nat d > effectiveLimit t (w * h)"
    by (simp add: thresholdDecision_def)
  have p: "thresholdDecision t w h d = Passed \<longleftrightarrow> \<not> of_nat d > effectiveLimit t (w * h)"
    by (simp add: thresholdDecision_def)
  have l: "effectiveLimit t (w * h) = (if t < 1 then t * of_nat (w * h) else t)"
    by (simp add: effectiveLimit_def)
  have a: "thresholdDecision t w h d = Failed \<longleftrightarrow> int d > \<lfloor>t * of_nat (w * h)\<rfloor>" if "t < 1"
    unfolding f l fl[symmetric] using that by simp
  have b: "thresholdDecision t w h d = Failed \<longleftrightarrow> int d > \<lfloor>t\<rfloor>" if "1 \<le> t"
    unfolding f l fl[symmetric] using that by simp
  show ?thesis using l f p a b by blast
qed

theorem threshold_decision_witness:
  "thresholdDecision (1 / 100) 100 100 50 = Passed \<and>
   thresholdDecision (1 / 100) 100 100 150 = Failed \<and>
   thresholdDecision 5 100 100 5 = Passed \<and>
   thresholdDecision 5 100 100 6 = Failed"
proof -
  note a = threshold_decision[of "1 / 100" 100 100 50]
  note b = threshold_decision[of "1 / 100" 100 100 150]
  note c = threshold_decision[of 5 100 100 5]
  note d = threshold_decision[of 5 100 100 6]
  have 1: "thresholdDecision (1 / 100) 100 100 50 = Passed"
    unfolding a[THEN conjunct2, THEN conjunct2, THEN conjunct1] a[THEN conjunct1] by simp
  have 2: "thresholdDecision (1 / 100) 100 100 150 = Failed"
    unfolding b[THEN conjunct2, THEN conjunct1] b[THEN conjunct1] by simp
  have 3: "thresholdDecision 5 100 100 5 = Passed"
    unfolding c[THEN conjunct2, THEN conjunct2, THEN conjunct1] c[THEN conjunct1] by simp
  have 4: "thresholdDecision 5 100 100 6 = Failed"
    unfolding d[THEN conjunct2, THEN conjunct1] d[THEN conjunct1] by simp
  show ?thesis using 1 2 3 4 by simp
qed


section \<open>The retry bound\<close>

lemma retryLoop_always_unstable:
  assumes "\<forall>i. snd (capture i)"
  shows "retryLoop capture w b i =
           (concat (map (\<lambda>j. [Attempt j, Wait w]) [i..<i + b]) @ [Attempt (i + b)],
            fst (capture (i + b)), Suc (i + b))"
proof (induction b arbitrary: i)
  case 0
  show ?case by simp
next
  case (Suc b)
  have u: "[i..<Suc (i + b)] = i # [Suc i..<Suc (i + b)]"
    by (simp add: upt_conv_Cons)
  show ?case
    using assms by (simp add: Suc.IH u del: upt_Suc)
qed

lemma attempts_of_simps:
  "attempts_of [] = []"
  "attempts_of (Attempt i # es) = i # attempts_of es"
  "attempts_of (Wait ms # es) = attempts_of es"
  by (simp_all add: attempts_of_def List.map_filter_simps)

lemma waits_of_simps:
  "waits_of [] = []"
  "waits_of (Attempt i # es) = waits_of es"
  "waits_of (Wait ms # es) = ms # waits_of es"
  by (simp_all add: waits_of_def List.map_filter_simps)

lemma attempts_of_trace:
  "attempts_of (concat (map (\<lambda>j. [Attempt j, Wait w]) js) @ [Attempt k]) = js @ [k]"
  by (induction js) (simp_all add: attempts_of_simps)

lemma waits_of_trace:
  "waits_of (concat (map (\<lambda>j. [Attempt j, Wait w]) js) @ [Attempt k]) = replicate (length js) w"
  by (induction js) (simp_all add: waits_of_simps)

text \<open>
  Claim C3. With \<open>flakynessRetries = n\<close>, a target whose every attempt is judged unstable
  is attempted exactly \<open>n + 1\<close> times (attempts 0 to \<open>n\<close>), with a wait of
  \<open>waitBetweenFlakynessRetries\<close> ms between consecutive attempts, \<open>n\<close> waits in all; the
  result used is that of the last attempt, and \<open>attemptsUsed\<close> is \<open>n + 1\<close>.
\<close>

theorem retry_bound:
  assumes "\<forall>i. snd (capture i)"
  shows "captureWithRetries n w capture =
           (concat (map (\<lambda>i. [Attempt i, Wait w]) [0..<n]) @ [Attempt n],
            fst (capture n), Suc n) \<and>
         attempts_of (fst (captureWithRetries n w capture)) = [0..<Suc n] \<and>
         waits_of (fst (captureWithRetries n w capture)) = replicate n w"
proof -
  have r: "captureWithRetries n w capture =
           (concat (map (\<lambda>i. [Attempt i, Wait w]) [0..<n]) @ [Attempt n],
            fst (capture n), Suc n)"
    unfolding captureWithRetries_def retryLoop_always_unstable[OF assms] by simp
  show ?thesis
    unfolding r by (simp add: attempts_of_trace waits_of_trace)
qed

theorem retry_bound_witness:
  "captureWithRetries 2 2000 always_unstable =
     ([Attempt 0, Wait 2000, Attempt 1, Wait 2000, Attempt 2], 2, 3)"
proof -
  have h: "\<forall>i. snd (always_unstable i)" by (simp add: always_unstable_def)
  have u: "[0..<2] = [0, Suc 0]" by (simp add: upt_conv_Cons)
  have r: "fst (always_unstable 2) = 2" by (simp add: always_unstable_def)
  show ?thesis
    using retry_bound[OF h, of 2 2000, THEN conjunct1] by (simp add: u r)
qed

lemma retry_stops_when_stable:
  "\<not> snd (capture 0) \<Longrightarrow> captureWithRetries n w capture = ([Attempt 0], fst (capture 0), 1)"
  by (cases n) (simp_all add: captureWithRetries_def)

end
